theory Spec2Isabelle
  imports Complex_Main "HOL-Library.Word" "HOL-Library.Sublist"
begin

section \<open>JavaScript strings and values\<close>

text \<open>
  A JavaScript string is a sequence of UTF-16 code units; \<open>length\<close>, \<open>includes\<close>,
  \<open>startsWith\<close> and \<open>trim\<close> all work on code units. The ASCII literals of the source
  are embedded with \<open>js\<close>.
\<close>

type_synonym jschar = "16 word"
type_synonym jsstring = "jschar list"

definition js :: "string \<Rightarrow> jsstring" where
  "js s = map of_char s"

text \<open>
  The values that reach the handlers are JSON-decoded payloads and \<open>JSON.parse\<close> results:
  no functions, no cycles. A number is a finite double, kept as the rational that is its
  value; the program looks at a number of this kind only through its truthiness and its
  string conversion.
\<close>

datatype jsval =
    JUndefined
  | JNull
  | JBool bool
  | JNum rat
  | JStr jsstring
  | JArr "jsval list"
  | JObj "(jsstring \<times> jsval) list"

datatype js_error =
    Error (message: jsstring)
  | TypeError (message: jsstring)

fun truthy :: "jsval \<Rightarrow> bool" where
  "truthy JUndefined = False"
| "truthy JNull = False"
| "truthy (JBool b) = b"
| "truthy (JNum r) = (r \<noteq> 0)"
| "truthy (JStr s) = (s \<noteq> [])"
| "truthy (JArr xs) = True"
| "truthy (JObj kvs) = True"

fun nullish :: "jsval \<Rightarrow> bool" where
  "nullish JUndefined = True"
| "nullish JNull = True"
| "nullish v = False"

text \<open>\<open>typeof v === "object"\<close>: objects, arrays and \<open>null\<close>.\<close>

fun typeof_object :: "jsval \<Rightarrow> bool" where
  "typeof_object JNull = True"
| "typeof_object (JArr xs) = True"
| "typeof_object (JObj kvs) = True"
| "typeof_object v = False"

fun isArray :: "jsval \<Rightarrow> bool" where
  "isArray (JArr xs) = True"
| "isArray v = False"

text \<open>
  \<open>v.k\<close> for a base that is neither \<open>null\<close> nor \<open>undefined\<close>. The program reads only
  the names question, farmProfile, language, text, audioPath, crops, location, village,
  district, state, soilType, irrigationType, area, value, unit, season, answer,
  confidence, sources and suggestions; none of them is a property of a primitive, of an
  array or of \<open>Object.prototype\<close>, so the read gives the own property of an object and
  \<open>undefined\<close> everywhere else.
\<close>

fun getProp :: "jsval \<Rightarrow> jsstring \<Rightarrow> jsval" where
  "getProp (JObj kvs) k = (case map_of kvs k of Some v \<Rightarrow> v | None \<Rightarrow> JUndefined)"
| "getProp v k = JUndefined"

text \<open>Optional chaining \<open>v?.k\<close>.\<close>

definition optProp :: "jsval \<Rightarrow> jsstring \<Rightarrow> jsval" where
  "optProp v k = (if nullish v then JUndefined else getProp v k)"

fun joinWith :: "'a list \<Rightarrow> 'a list list \<Rightarrow> 'a list" where
  "joinWith sep [] = []"
| "joinWith sep [x] = x"
| "joinWith sep (x # y # ys) = x @ sep @ joinWith sep (y # ys)"

text \<open>
  The string conversion of a template literal. \<open>Number.prototype.toString\<close> works on
  floating-point numbers; it is the parameter \<open>ns\<close>. An array converts as
  \<open>join(",")\<close>, where \<open>null\<close> and \<open>undefined\<close> elements give the empty string.
\<close>

fun toStr :: "(rat \<Rightarrow> jsstring) \<Rightarrow> jsval \<Rightarrow> jsstring"
  and elemStr :: "(rat \<Rightarrow> jsstring) \<Rightarrow> jsval \<Rightarrow> jsstring"
  and elemStrs :: "(rat \<Rightarrow> jsstring) \<Rightarrow> jsval list \<Rightarrow> jsstring list" where
  "toStr ns JUndefined = js ''undefined''"
| "toStr ns JNull = js ''null''"
| "toStr ns (JBool b) = (if b then js ''true'' else js ''false'')"
| "toStr ns (JNum r) = ns r"
| "toStr ns (JStr s) = s"
| "toStr ns (JArr xs) = joinWith (js '','') (elemStrs ns xs)"
| "toStr ns (JObj kvs) = js ''[object Object]''"
| "elemStr ns v = (if nullish v then [] else toStr ns v)"
| "elemStrs ns [] = []"
| "elemStrs ns (x # xs) = elemStr ns x # elemStrs ns xs"

text \<open>\<open>Array.prototype.join(sep)\<close> on the elements of an array.\<close>

definition arrayJoin :: "(rat \<Rightarrow> jsstring) \<Rightarrow> jsstring \<Rightarrow> jsval list \<Rightarrow> jsstring" where
  "arrayJoin ns sep xs = joinWith sep (elemStrs ns xs)"

fun startsWith :: "'a list \<Rightarrow> 'a list \<Rightarrow> bool" where
  "startsWith s [] = True"
| "startsWith [] (p # ps) = False"
| "startsWith (c # cs) (p # ps) = (c = p \<and> startsWith cs ps)"

fun includesStr :: "'a list \<Rightarrow> 'a list \<Rightarrow> bool" where
  "includesStr [] p = (p = [])"
| "includesStr (c # cs) p = (startsWith (c # cs) p \<or> includesStr cs p)"

text \<open>
  \<open>String.prototype.trim\<close> removes the WhiteSpace and LineTerminator code units of
  ECMAScript from both ends.
\<close>

definition isWhiteSpace :: "jschar \<Rightarrow> bool" where
  "isWhiteSpace c \<longleftrightarrow>
     c \<in> {0x0009, 0x000A, 0x000B, 0x000C, 0x000D, 0x0020, 0x00A0, 0x1680,
          0x2000, 0x2001, 0x2002, 0x2003, 0x2004, 0x2005, 0x2006, 0x2007,
          0x2008, 0x2009, 0x200A, 0x2028, 0x2029, 0x202F, 0x205F, 0x3000, 0xFEFF}"

definition trim :: "jsstring \<Rightarrow> jsstring" where
  "trim s = rev (dropWhile isWhiteSpace (rev (dropWhile isWhiteSpace s)))"

text \<open>Decimal digits of a natural number, as a number of that size prints.\<close>

fun showNat :: "nat \<Rightarrow> jsstring" where
  "showNat n = (if n < 10 then [48 + of_nat n] else showNat (n div 10) @ [48 + of_nat (n mod 10)])"

declare showNat.simps [simp del]

section \<open>Validators (functions/src/utils/validators.js)\<close>

fun missingFields :: "jsval \<Rightarrow> jsstring list \<Rightarrow> jsstring list" where
  "missingFields d [] = []"
| "missingFields d (f # fs) =
     (if getProp d f = JUndefined \<or> getProp d f = JNull \<or> getProp d f = JStr []
      then f # missingFields d fs else missingFields d fs)"

text \<open>
  \<open>data[field]\<close> on a \<open>null\<close> or \<open>undefined\<close> payload raises a TypeError at the first
  field (the wording is that of V8).
\<close>

definition cannotRead :: "(rat \<Rightarrow> jsstring) \<Rightarrow> jsval \<Rightarrow> jsstring \<Rightarrow> js_error" where
  "cannotRead ns v k =
     TypeError (js ''Cannot read properties of '' @ toStr ns v @ js '' (reading '' @ [0x27] @ k @ [0x27] @ js '')'')"

definition validateRequiredFields ::
  "(rat \<Rightarrow> jsstring) \<Rightarrow> jsval \<Rightarrow> jsstring list \<Rightarrow> js_error + unit" where
  "validateRequiredFields ns d requiredFields =
     (case requiredFields of
        [] \<Rightarrow> Inr ()
      | f # fs \<Rightarrow>
          if nullish d then Inl (cannotRead ns d f)
          else if length (missingFields d requiredFields) > 0
          then Inl (Error (js ''Missing required fields: '' @
                           joinWith (js '', '') (missingFields d requiredFields)))
          else Inr ())"

definition supportedLanguages :: "jsstring list" where
  "supportedLanguages = [js ''en'', js ''hi'', js ''ta'', js ''te'']"

text \<open>\<open>Array.prototype.includes\<close> on an array of strings: only an equal string is found.\<close>

fun stringsInclude :: "jsstring list \<Rightarrow> jsval \<Rightarrow> bool" where
  "stringsInclude xs (JStr s) = (s \<in> set xs)"
| "stringsInclude xs v = False"

text \<open>The string that a value is, once the validator has found it among the codes.\<close>

fun theString :: "jsval \<Rightarrow> jsstring" where
  "theString (JStr s) = s"
| "theString v = []"

definition validateLanguage :: "(rat \<Rightarrow> jsstring) \<Rightarrow> jsval \<Rightarrow> js_error + jsstring" where
  "validateLanguage ns language =
     (if \<not> truthy language \<or> \<not> stringsInclude supportedLanguages language
      then Inl (Error (js ''Unsupported language: '' @ toStr ns language @
                       js ''. Supported: '' @ joinWith (js '', '') supportedLanguages))
      else Inr (theString language))"

definition validateAudioPath :: "jsval \<Rightarrow> js_error + jsstring" where
  "validateAudioPath audioPath =
     (case audioPath of
        JStr s \<Rightarrow>
          if s = [] then Inl (Error (js ''Invalid audio path''))
          else if \<not> startsWith s (js ''audio/'')
          then Inl (Error (js ''Invalid audio path format. Must start with '' @ [0x27] @
                           js ''audio/'' @ [0x27]))
          else Inr s
      | _ \<Rightarrow> Inl (Error (js ''Invalid audio path'')))"

definition validateTextLength :: "jsval \<Rightarrow> nat \<Rightarrow> js_error + jsstring" where
  "validateTextLength text maxLength =
     (case text of
        JStr s \<Rightarrow>
          if s = [] then Inl (Error (js ''Invalid text input''))
          else if length s > maxLength
          then Inl (Error (js ''Text too long. Maximum length: '' @ showNat maxLength @
                           js '' characters''))
          else Inr (trim s)
      | _ \<Rightarrow> Inl (Error (js ''Invalid text input'')))"

section \<open>Prompt builder (functions/src/prompts/agricultural.js)\<close>

text \<open>The fixed pieces of the template literal, between the substitutions.\<close>

definition promptIntro :: jsstring where
  "promptIntro = js (''You are KisanMitra AI, an expert agricultural advisor for Indian farmers with deep knowledge of:\<newline>'' @
     ''- Indian agriculture practices and regional variations\<newline>'' @
     ''- Crop diseases, pests, and their management\<newline>'' @
     ''- Soil health and fertilizer recommendations\<newline>'' @
     ''- Water management and irrigation techniques\<newline>'' @
     ''- Government schemes and subsidies for farmers\<newline>'' @
     ''- Weather patterns and seasonal advice\<newline>'' @
     ''- Organic farming and sustainable practices\<newline>'' @
     ''\<newline>'' @
     ''FARMER'S CONTEXT:\<newline>'' @
     ''- Crops: '')"

definition promptLocation :: jsstring where
  "promptLocation = js (''\<newline>'' @
     ''- Location: '')"

definition promptSoilType :: jsstring where
  "promptSoilType = js (''\<newline>'' @
     ''- Soil Type: '')"

definition promptIrrigation :: jsstring where
  "promptIrrigation = js (''\<newline>'' @
     ''- Irrigation: '')"

definition promptFarmArea :: jsstring where
  "promptFarmArea = js (''\<newline>'' @
     ''- Farm Area: '')"

definition promptSeason :: jsstring where
  "promptSeason = js (''\<newline>'' @
     ''- Current Season: '')"

definition promptInstructions :: jsstring where
  "promptInstructions = js (''\<newline>'' @
     ''\<newline>'' @
     ''INSTRUCTIONS:\<newline>'' @
     ''1. Answer the farmer's question accurately and practically, considering their specific farm context.\<newline>'' @
     ''2. Provide actionable advice that the farmer can implement immediately.\<newline>'' @
     ''3. Answer in '')"

definition promptInstructions2 :: jsstring where
  "promptInstructions2 = js ('' - the farmer's preferred language.\<newline>'' @
     ''4. Keep answers concise but comprehensive (2-4 paragraphs maximum).\<newline>'' @
     ''5. Include specific product names, dosages, or techniques when relevant (with local market names).\<newline>'' @
     ''6. Mention if the farmer should consult a local agricultural officer, Krishi Vigyan Kendra (KVK), or veterinarian for serious issues.\<newline>'' @
     ''7. Consider regional practices common to '')"

definition promptFormat :: jsstring where
  "promptFormat = js (''.\<newline>'' @
     ''8. If the question is about government schemes, mention eligibility and application process.\<newline>'' @
     ''9. Always prioritize safe, sustainable, and cost-effective solutions.\<newline>'' @
     ''\<newline>'' @
     ''RESPONSE FORMAT (respond in valid JSON):\<newline>'' @
     ''{\<newline>'' @
     ''  \"answer\": \"Your detailed answer here in '')"

definition promptFormat2 :: jsstring where
  "promptFormat2 = js (''\",\<newline>'' @
     ''  \"confidence\": \"High\" | \"Medium\" | \"Low\",\<newline>'' @
     ''  \"sources\": [\"Source 1\", \"Source 2\", \"Source 3\"],\<newline>'' @
     ''  \"suggestions\": [\"Follow-up suggestion 1\", \"Follow-up suggestion 2\"]\<newline>'' @
     ''}\<newline>'' @
     ''\<newline>'' @
     ''Guidelines for confidence level:\<newline>'' @
     ''- High: You're certain about the advice based on established agricultural science\<newline>'' @
     ''- Medium: The advice is sound but may vary based on specific conditions\<newline>'' @
     ''- Low: Limited information or the issue requires professional in-person diagnosis\<newline>'' @
     ''\<newline>'' @
     ''FARMER'S QUESTION: '')"

definition promptClosing :: jsstring where
  "promptClosing = js (''\<newline>'' @
     ''\<newline>'' @
     ''Remember: Respond ONLY with valid JSON. No additional text before or after the JSON object.'')"

definition promptTemplate ::
  "jsstring \<Rightarrow> jsstring \<Rightarrow> jsstring \<Rightarrow> jsstring \<Rightarrow> jsstring \<Rightarrow> jsstring \<Rightarrow> jsstring \<Rightarrow> jsstring \<Rightarrow>
   jsstring \<Rightarrow> jsstring \<Rightarrow> jsstring" where
  "promptTemplate languageName crops village district state soilType irrigationType area season question =
     promptIntro @ crops @ promptLocation @ village @
     js '', '' @ district @ js '', '' @ state @
     promptSoilType @ soilType @ promptIrrigation @ irrigationType @
     promptFarmArea @ area @ promptSeason @ season @
     promptInstructions @ languageName @ promptInstructions2 @ state @
     promptFormat @ languageName @ promptFormat2 @ question @
     promptClosing"

definition languageNames :: "(jsstring \<times> jsstring) list" where
  "languageNames =
     [(js ''en'', js ''English''), (js ''hi'', js ''Hindi''),
      (js ''ta'', js ''Tamil''), (js ''te'', js ''Telugu'')]"

definition notSpecified :: jsstring where
  "notSpecified = js ''Not specified''"

text \<open>\<open>v || "Not specified"\<close>, as the template literal then prints it.\<close>

definition orNotSpecified :: "(rat \<Rightarrow> jsstring) \<Rightarrow> jsval \<Rightarrow> jsstring" where
  "orNotSpecified ns v = (if truthy v then toStr ns v else notSpecified)"

text \<open>
  \<open>farmProfile.crops?.join(", ") || "Not specified"\<close>: the optional chain guards only a
  \<open>null\<close> or \<open>undefined\<close> crops; any other value that is not an array has no \<open>join\<close>
  method and the call raises a TypeError (the wording is that of V8).
\<close>

definition cropsText :: "(rat \<Rightarrow> jsstring) \<Rightarrow> jsval \<Rightarrow> js_error + jsstring" where
  "cropsText ns farmProfile =
     (case getProp farmProfile (js ''crops'') of
        JUndefined \<Rightarrow> Inr notSpecified
      | JNull \<Rightarrow> Inr notSpecified
      | JArr xs \<Rightarrow>
          Inr (if arrayJoin ns (js '', '') xs = [] then notSpecified
               else arrayJoin ns (js '', '') xs)
      | _ \<Rightarrow> Inl (TypeError (js ''farmProfile.crops?.join is not a function'')))"

text \<open>
  \<open>farmProfile.area ? `${farmProfile.area.value} ${farmProfile.area.unit}` : "Not specified"\<close>
\<close>

definition areaText :: "(rat \<Rightarrow> jsstring) \<Rightarrow> jsval \<Rightarrow> jsstring" where
  "areaText ns farmProfile =
     (if truthy (getProp farmProfile (js ''area''))
      then toStr ns (getProp (getProp farmProfile (js ''area'')) (js ''value'')) @ js '' '' @
           toStr ns (getProp (getProp farmProfile (js ''area'')) (js ''unit''))
      else notSpecified)"

text \<open>
  \<open>languageNames[language]\<close> looks the key up in the object literal and then in
  \<open>Object.prototype\<close>, whose members are all truthy: for such a key \<open>languageName\<close> is the
  inherited member, and the template literal prints it as Node.js prints a built-in
  function (the object \<open>Object.prototype\<close> itself for \<open>__proto__\<close>).
\<close>

definition nativeFunctionText :: "jsstring \<Rightarrow> jsstring" where
  "nativeFunctionText name = js ''function '' @ name @ js ''() { [native code] }''"

definition objectPrototypeText :: "(jsstring \<times> jsstring) list" where
  "objectPrototypeText =
     [(js ''constructor'', nativeFunctionText (js ''Object'')),
      (js ''__defineGetter__'', nativeFunctionText (js ''__defineGetter__'')),
      (js ''__defineSetter__'', nativeFunctionText (js ''__defineSetter__'')),
      (js ''hasOwnProperty'', nativeFunctionText (js ''hasOwnProperty'')),
      (js ''__lookupGetter__'', nativeFunctionText (js ''__lookupGetter__'')),
      (js ''__lookupSetter__'', nativeFunctionText (js ''__lookupSetter__'')),
      (js ''isPrototypeOf'', nativeFunctionText (js ''isPrototypeOf'')),
      (js ''propertyIsEnumerable'', nativeFunctionText (js ''propertyIsEnumerable'')),
      (js ''toString'', nativeFunctionText (js ''toString'')),
      (js ''valueOf'', nativeFunctionText (js ''valueOf'')),
      (js ''__proto__'', js ''[object Object]''),
      (js ''toLocaleString'', nativeFunctionText (js ''toLocaleString''))]"

definition buildAgriculturalPrompt ::
  "(rat \<Rightarrow> jsstring) \<Rightarrow> jsval \<Rightarrow> jsstring \<Rightarrow> jsstring \<Rightarrow> js_error + jsstring" where
  "buildAgriculturalPrompt ns farmProfile language question =
     (let languageName = (case map_of languageNames language of
                            Some n \<Rightarrow> n
                          | None \<Rightarrow> (case map_of objectPrototypeText language of
                                       Some n \<Rightarrow> n | None \<Rightarrow> js ''English''))
      in if nullish farmProfile then Inl (cannotRead ns farmProfile (js ''crops''))
         else case cropsText ns farmProfile of
           Inl e \<Rightarrow> Inl e
         | Inr crops \<Rightarrow>
             Inr (promptTemplate languageName crops
                    (orNotSpecified ns (optProp (getProp farmProfile (js ''location'')) (js ''village'')))
                    (orNotSpecified ns (optProp (getProp farmProfile (js ''location'')) (js ''district'')))
                    (orNotSpecified ns (optProp (getProp farmProfile (js ''location'')) (js ''state'')))
                    (orNotSpecified ns (getProp farmProfile (js ''soilType'')))
                    (orNotSpecified ns (getProp farmProfile (js ''irrigationType'')))
                    (areaText ns farmProfile)
                    (orNotSpecified ns (getProp farmProfile (js ''season'')))
                    question))"

section \<open>A reader for JSON texts\<close>

text \<open>
  \<open>JSON.parse\<close> is a built-in of the language. The handlers below take it as a parameter;
  this section gives one concrete reader of the JSON grammar (ECMA-404), used where a
  sample reply text is evaluated from end to end. Its recursion is bounded by the length
  of the text: the first argument of \<open>parseValue\<close> counts down over a copy of it. It
  keeps the exact value of a number literal, where \<open>JSON.parse\<close> takes the nearest
  double; the two agree on the integers of the samples.
\<close>

definition isJsonWs :: "jschar \<Rightarrow> bool" where
  "isJsonWs c \<longleftrightarrow> c = 0x20 \<or> c = 0x09 \<or> c = 0x0A \<or> c = 0x0D"

definition skipWs :: "jsstring \<Rightarrow> jsstring" where
  "skipWs s = dropWhile isJsonWs s"

definition isDigit :: "jschar \<Rightarrow> bool" where
  "isDigit c \<longleftrightarrow> 0x30 \<le> c \<and> c \<le> 0x39"

definition hexDigit :: "jschar \<Rightarrow> jschar option" where
  "hexDigit c =
     (if 0x30 \<le> c \<and> c \<le> 0x39 then Some (c - 0x30)
      else if 0x41 \<le> c \<and> c \<le> 0x46 then Some (c - 0x37)
      else if 0x61 \<le> c \<and> c \<le> 0x66 then Some (c - 0x57)
      else None)"

definition hex4 :: "jschar \<Rightarrow> jschar \<Rightarrow> jschar \<Rightarrow> jschar \<Rightarrow> jschar option" where
  "hex4 a b c d =
     (case (hexDigit a, hexDigit b, hexDigit c, hexDigit d) of
        (Some w, Some x, Some y, Some z) \<Rightarrow> Some (4096 * w + 256 * x + 16 * y + z)
      | _ \<Rightarrow> None)"

definition escapeChar :: "jschar \<Rightarrow> jschar option" where
  "escapeChar e =
     (if e = 0x22 \<or> e = 0x5C \<or> e = 0x2F then Some e
      else if e = 0x62 then Some 0x08
      else if e = 0x66 then Some 0x0C
      else if e = 0x6E then Some 0x0A
      else if e = 0x72 then Some 0x0D
      else if e = 0x74 then Some 0x09
      else None)"

text \<open>The characters of a string literal, after its opening quote.\<close>

fun parseChars :: "jsstring \<Rightarrow> (jsstring \<times> jsstring) option" where
  "parseChars [] = None"
| "parseChars (c # cs) =
     (if c = 0x22 then Some ([], cs)
      else if c = 0x5C then
        (case cs of
           [] \<Rightarrow> None
         | e # es \<Rightarrow>
             if e = 0x75 then
               (case es of
                  h1 # h2 # h3 # h4 # r \<Rightarrow>
                    (case hex4 h1 h2 h3 h4 of
                       None \<Rightarrow> None
                     | Some u \<Rightarrow>
                         (case parseChars r of
                            None \<Rightarrow> None
                          | Some (str, rest) \<Rightarrow> Some (u # str, rest)))
                | _ \<Rightarrow> None)
             else
               (case escapeChar e of
                  None \<Rightarrow> None
                | Some x \<Rightarrow>
                    (case parseChars es of
                       None \<Rightarrow> None
                     | Some (str, rest) \<Rightarrow> Some (x # str, rest))))
      else if c < 0x20 then None
      else (case parseChars cs of
              None \<Rightarrow> None
            | Some (str, rest) \<Rightarrow> Some (c # str, rest)))"

definition digitsValue :: "jsstring \<Rightarrow> nat" where
  "digitsValue ds = foldl (\<lambda>a d. 10 * a + (unat d - 48)) 0 ds"

text \<open>An unsigned integer part: a single \<open>0\<close>, or digits that do not start with \<open>0\<close>.\<close>

definition parseInt :: "jsstring \<Rightarrow> (nat \<times> jsstring) option" where
  "parseInt s =
     (let ds = takeWhile isDigit s
      in if ds = [] \<or> (hd ds = 0x30 \<and> length ds > 1) then None
         else Some (digitsValue ds, dropWhile isDigit s))"

definition parseFrac :: "jsstring \<Rightarrow> (rat \<times> jsstring) option" where
  "parseFrac s =
     (case s of
        c # r \<Rightarrow>
          if c = 0x2E then
            (let ds = takeWhile isDigit r
             in if ds = [] then None
                else Some (of_nat (digitsValue ds) / 10 ^ length ds, dropWhile isDigit r))
          else Some (0, s)
      | [] \<Rightarrow> Some (0, s))"

definition parseExp :: "jsstring \<Rightarrow> (rat \<times> jsstring) option" where
  "parseExp s =
     (case s of
        c # r \<Rightarrow>
          if c = 0x65 \<or> c = 0x45 then
            (let neg = (case r of x # _ \<Rightarrow> x = 0x2D | [] \<Rightarrow> False);
                 r' = (case r of x # xs \<Rightarrow> if x = 0x2D \<or> x = 0x2B then xs else r | [] \<Rightarrow> r);
                 ds = takeWhile isDigit r'
             in if ds = [] then None
                else Some (if neg then 1 / 10 ^ digitsValue ds else 10 ^ digitsValue ds,
                           dropWhile isDigit r'))
          else Some (1, s)
      | [] \<Rightarrow> Some (1, s))"

definition parseNumber :: "jsstring \<Rightarrow> (jsval \<times> jsstring) option" where
  "parseNumber s =
     (let neg = (case s of c # _ \<Rightarrow> c = 0x2D | [] \<Rightarrow> False);
          s1 = (if neg then tl s else s)
      in case parseInt s1 of
           None \<Rightarrow> None
         | Some (i, s2) \<Rightarrow>
             (case parseFrac s2 of
                None \<Rightarrow> None
              | Some (f, s3) \<Rightarrow>
                  (case parseExp s3 of
                     None \<Rightarrow> None
                   | Some (e, s4) \<Rightarrow>
                       Some (JNum ((if neg then - 1 else 1) * (of_nat i + f) * e), s4))))"

text \<open>A repeated name keeps its first position and takes the last value.\<close>

fun setProp :: "jsstring \<Rightarrow> jsval \<Rightarrow> (jsstring \<times> jsval) list \<Rightarrow> (jsstring \<times> jsval) list" where
  "setProp k v [] = [(k, v)]"
| "setProp k v (p # ps) = (if fst p = k then (k, v) # ps else p # setProp k v ps)"

fun parseValue :: "jschar list \<Rightarrow> jsstring \<Rightarrow> (jsval \<times> jsstring) option"
  and parseElements :: "jschar list \<Rightarrow> jsstring \<Rightarrow> jsval list \<Rightarrow> (jsval \<times> jsstring) option"
  and parseMembers ::
    "jschar list \<Rightarrow> jsstring \<Rightarrow> (jsstring \<times> jsval) list \<Rightarrow> (jsval \<times> jsstring) option" where
  "parseValue [] s = None"
| "parseValue (x # fuel) s =
     (case skipWs s of
        [] \<Rightarrow> None
      | c # r \<Rightarrow>
          if c = 0x7B then
            (case skipWs r of
               [] \<Rightarrow> None
             | d # r' \<Rightarrow> if d = 0x7D then Some (JObj [], r') else parseMembers fuel r [])
          else if c = 0x5B then
            (case skipWs r of
               [] \<Rightarrow> None
             | d # r' \<Rightarrow> if d = 0x5D then Some (JArr [], r') else parseElements fuel r [])
          else if c = 0x22 then
            (case parseChars r of None \<Rightarrow> None | Some (str, rest) \<Rightarrow> Some (JStr str, rest))
          else if startsWith (c # r) (js ''true'') then Some (JBool True, drop 4 (c # r))
          else if startsWith (c # r) (js ''false'') then Some (JBool False, drop 5 (c # r))
          else if startsWith (c # r) (js ''null'') then Some (JNull, drop 4 (c # r))
          else parseNumber (c # r))"
| "parseElements [] s acc = None"
| "parseElements (x # fuel) s acc =
     (case parseValue fuel s of
        None \<Rightarrow> None
      | Some (v, r) \<Rightarrow>
          (case skipWs r of
             [] \<Rightarrow> None
           | c # r' \<Rightarrow>
               if c = 0x2C then parseElements fuel r' (acc @ [v])
               else if c = 0x5D then Some (JArr (acc @ [v]), r')
               else None))"
| "parseMembers [] s acc = None"
| "parseMembers (x # fuel) s acc =
     (case skipWs s of
        [] \<Rightarrow> None
      | q # r \<Rightarrow>
          if q \<noteq> 0x22 then None
          else
            (case parseChars r of
               None \<Rightarrow> None
             | Some (k, r1) \<Rightarrow>
                 (case skipWs r1 of
                    [] \<Rightarrow> None
                  | c # r2 \<Rightarrow>
                      if c \<noteq> 0x3A then None
                      else
                        (case parseValue fuel r2 of
                           None \<Rightarrow> None
                         | Some (v, r3) \<Rightarrow>
                             (case skipWs r3 of
                                [] \<Rightarrow> None
                              | d # r4 \<Rightarrow>
                                  if d = 0x2C then parseMembers fuel r4 (setProp k v acc)
                                  else if d = 0x7D then Some (JObj (setProp k v acc), r4)
                                  else None)))))"

definition JSON_parse :: "jsstring \<Rightarrow> jsval option" where
  "JSON_parse s =
     (case parseValue (0 # s) s of
        None \<Rightarrow> None
      | Some (v, r) \<Rightarrow> if skipWs r = [] then Some v else None)"

section \<open>Response parser (functions/src/askGemini.js, lines 54 to 91)\<close>

text \<open>
  \<open>responseText.match(/\{[\s\S]*\}/)\<close>: the match starts at the first \<open>{\<close> and, the
  star being greedy, ends at the last \<open>}\<close> after it; there is no match when either
  is missing.
\<close>

definition extractJson :: "jsstring \<Rightarrow> jsstring option" where
  "extractJson responseText =
     (case dropWhile (\<lambda>c. c \<noteq> 0x7B) responseText of
        [] \<Rightarrow> None
      | c # rest \<Rightarrow>
          (case dropWhile (\<lambda>c. c \<noteq> 0x7D) (rev rest) of
             [] \<Rightarrow> None
           | d # r \<Rightarrow> Some (c # rev (d # r))))"

text \<open>
  The matched text starts with \<open>{\<close>, and a JSON text with that first character is an
  object: \<open>JSON.parse\<close> gives the properties of the object, or raises a SyntaxError
  (\<open>None\<close>). The type of the parameter says so.
\<close>

type_synonym json_parser = "jsstring \<Rightarrow> (jsstring \<times> jsval) list option"

definition JSON_parse_object :: json_parser where
  "JSON_parse_object s = (case JSON_parse s of Some (JObj kvs) \<Rightarrow> Some kvs | _ \<Rightarrow> None)"

definition fallbackResponse :: "jsstring \<Rightarrow> jsval" where
  "fallbackResponse responseText =
     JObj [(js ''answer'', JStr responseText),
           (js ''confidence'', JStr (js ''Medium'')),
           (js ''sources'', JArr [JStr (js ''Gemini AI'')]),
           (js ''suggestions'', JArr [])]"

text \<open>Lines 54 to 72: the inner \<open>try\<close>/\<open>catch\<close>, which ends with \<open>aiResponse\<close> assigned.\<close>

definition parseReply :: "json_parser \<Rightarrow> jsstring \<Rightarrow> jsval" where
  "parseReply jp responseText =
     (case extractJson responseText of
        None \<Rightarrow> fallbackResponse responseText
      | Some m \<Rightarrow>
          (case jp m of
             None \<Rightarrow> fallbackResponse responseText
           | Some kvs \<Rightarrow> JObj kvs))"

record aiResponse =
  answer :: jsval
  confidence :: jsval
  sources :: jsval
  suggestions :: jsval

definition validConfidenceLevels :: "jsstring list" where
  "validConfidenceLevels = [js ''High'', js ''Medium'', js ''Low'']"

definition InvalidAIResponseError :: js_error where
  "InvalidAIResponseError = Error (js ''Invalid AI response: missing answer field'')"

text \<open>Lines 74 to 91: the check of \<open>answer\<close> and the three normalisations.\<close>

definition normalizeResponse :: "jsval \<Rightarrow> js_error + aiResponse" where
  "normalizeResponse r =
     (if \<not> truthy (getProp r (js ''answer'')) then Inl InvalidAIResponseError
      else Inr \<lparr>
        answer = getProp r (js ''answer''),
        confidence =
          (if \<not> stringsInclude validConfidenceLevels (getProp r (js ''confidence''))
           then JStr (js ''Medium'') else getProp r (js ''confidence'')),
        sources =
          (if \<not> isArray (getProp r (js ''sources''))
           then JArr [JStr (js ''Gemini AI'')] else getProp r (js ''sources'')),
        suggestions =
          (if \<not> isArray (getProp r (js ''suggestions''))
           then JArr [] else getProp r (js ''suggestions'')) \<rparr>)"

definition parseResponse :: "json_parser \<Rightarrow> jsstring \<Rightarrow> js_error + aiResponse" where
  "parseResponse jp responseText = normalizeResponse (parseReply jp responseText)"

section \<open>The handlers and their collaborators\<close>

text \<open>
  The call context of a callable function: \<open>auth\<close> is absent for a call without a
  verified token, and carries the user id otherwise (a string; a missing id is the empty
  one, which \<open>!context.auth.uid\<close> rejects alike).
\<close>

record auth_info =
  uid :: jsstring

record call_context =
  auth :: "auth_info option"

definition validateAuth :: "call_context \<Rightarrow> js_error + jsstring" where
  "validateAuth ctx =
     (case auth ctx of
        None \<Rightarrow> Inl (Error (js ''Unauthenticated: No auth token provided''))
      | Some a \<Rightarrow>
          if uid a = [] then Inl (Error (js ''Unauthenticated: Invalid auth token''))
          else Inr (uid a))"

datatype https_error = HttpsError (err_code: jsstring) (err_message: jsstring)

text \<open>
  The document that \<open>chatRef.set\<close> writes. Its \<open>timestamp\<close> field is the server-timestamp
  sentinel, filled in by the store.
\<close>

record chat_record =
  chat_question :: jsstring
  chat_answer :: jsval
  chat_confidence :: jsval
  chat_sources :: jsval
  chat_suggestions :: jsval
  chat_language :: jsstring
  chat_crops :: jsval
  chat_location :: jsval
  chat_soilType :: jsval

record askGeminiResult = aiResponse +
  chatId :: jsstring

record alternative =
  transcript :: jsstring
  alt_confidence :: rat

record speech_result =
  alternatives :: "alternative list"

record recognize_response =
  results :: "speech_result list option"

record recognize_request =
  uri :: jsstring
  encoding :: jsstring
  sampleRateHertz :: nat
  languageCode :: jsstring
  enableAutomaticPunctuation :: bool
  model :: jsstring
  useEnhanced :: bool

record transcription =
  tr_transcript :: jsstring
  tr_confidence :: rat
  tr_message :: "jsstring option"

record voice =
  voice_languageCode :: jsstring
  voiceName :: jsstring
  ssmlGender :: jsstring

record tts_request =
  input_text :: jsstring
  tts_voice :: voice
  audioEncoding :: jsstring
  speakingRate :: rat
  pitch :: rat
  volumeGainDb :: rat

record blob =
  blob_content :: "8 word list"
  contentType :: jsstring
  meta_userId :: jsstring
  meta_language :: jsstring
  meta_generatedAt :: jsstring

record synthesis =
  audioUrl :: jsstring
  storagePath :: jsstring

text \<open>
  What lies outside the handlers: the language runtime (number printing, the rounding of
  double arithmetic, \<open>JSON.parse\<close>), the process environment, the clock, and the
  answers of the external services. A service call either raises (\<open>Inl\<close>, or \<open>Some\<close>
  error for a write) or answers. \<open>dateNow env k\<close> is the k-th reading of
  \<open>Date.now()\<close> in the invocation.
\<close>

record env =
  numberToString :: "rat \<Rightarrow> jsstring"
  roundDouble :: "rat \<Rightarrow> rat"
  jsonParse :: json_parser
  GEMINI_API_KEY :: "jsstring option"
  generateContent :: "jsstring \<Rightarrow> js_error + jsstring"
  newChatId :: jsstring
  chatSet :: "jsstring \<Rightarrow> jsstring \<Rightarrow> chat_record \<Rightarrow> js_error option"
  bucketName :: jsstring
  fileExists :: "jsstring \<Rightarrow> js_error + bool"
  getSignedUrl :: "jsstring \<Rightarrow> nat \<Rightarrow> js_error + jsstring"
  recognize :: "recognize_request \<Rightarrow> js_error + recognize_response"
  synthesize :: "tts_request \<Rightarrow> js_error + 8 word list option"
  fileSave :: "jsstring \<Rightarrow> blob \<Rightarrow> js_error option"
  dateNow :: "nat \<Rightarrow> nat"
  isoNow :: jsstring

text \<open>
  The state the handlers act on: the requests sent to external services, in order, the
  chat documents written (by user id and document id) and the blobs written (by path).
\<close>

datatype ext_call =
    GeminiGenerate jsstring
  | ChatSet jsstring jsstring
  | FileExists jsstring
  | GetSignedUrl jsstring nat
  | Recognize recognize_request
  | Synthesize tts_request
  | FileSave jsstring

record world =
  calls :: "ext_call list"
  chats :: "(jsstring \<times> jsstring) \<rightharpoonup> chat_record"
  blobs :: "jsstring \<rightharpoonup> blob"

definition called :: "ext_call \<Rightarrow> world \<Rightarrow> world" where
  "called c w = w\<lparr>calls := calls w @ [c]\<rparr>"

text \<open>
  A handler body is a sequence of steps over the state, each of which may raise; a raised
  error ends the body at once with the state as it is. \<open>andThen\<close> sequences a step that
  does not touch the state, \<open>callExt\<close> a request to an external service, which is recorded
  before its outcome is looked at.
\<close>

type_synonym 'a action = "world \<Rightarrow> (js_error + 'a) \<times> world"

definition throw :: "js_error \<Rightarrow> 'a action" where
  "throw e w = (Inl e, w)"

definition return :: "'a \<Rightarrow> 'a action" where
  "return x w = (Inr x, w)"

definition andThen :: "js_error + 'a \<Rightarrow> ('a \<Rightarrow> 'b action) \<Rightarrow> 'b action" where
  "andThen r k w = (case r of Inl e \<Rightarrow> (Inl e, w) | Inr x \<Rightarrow> k x w)"

definition callExt :: "ext_call \<Rightarrow> js_error + 'a \<Rightarrow> ('a \<Rightarrow> 'b action) \<Rightarrow> 'b action" where
  "callExt c r k w = andThen r k (called c w)"

subsection \<open>askGemini\<close>

definition apiKeyMissing :: "env \<Rightarrow> bool" where
  "apiKeyMissing env =
     (case GEMINI_API_KEY env of
        None \<Rightarrow> True
      | Some k \<Rightarrow> k = [] \<or> k = js ''YOUR_GEMINI_API_KEY'')"

text \<open>\<open>v || d\<close> on values.\<close>

definition orElse :: "jsval \<Rightarrow> jsval \<Rightarrow> jsval" where
  "orElse v d = (if truthy v then v else d)"

definition chatRecord :: "jsstring \<Rightarrow> aiResponse \<Rightarrow> jsstring \<Rightarrow> jsval \<Rightarrow> chat_record" where
  "chatRecord question r language farmProfile =
     \<lparr> chat_question = question,
       chat_answer = answer r,
       chat_confidence = confidence r,
       chat_sources = sources r,
       chat_suggestions = suggestions r,
       chat_language = language,
       chat_crops = orElse (getProp farmProfile (js ''crops'')) (JArr []),
       chat_location = orElse (getProp farmProfile (js ''location'')) (JObj []),
       chat_soilType = orElse (getProp farmProfile (js ''soilType'')) (JStr []) \<rparr>"

text \<open>
  \<open>await chatRef.set(doc)\<close>: the document is in the store only when the write has not
  raised.
\<close>

definition writeChat ::
  "env \<Rightarrow> jsstring \<Rightarrow> jsstring \<Rightarrow> chat_record \<Rightarrow> 'a action \<Rightarrow> 'a action" where
  "writeChat env userId docId doc k w =
     (case chatSet env userId docId doc of
        Some e \<Rightarrow> (Inl e, called (ChatSet userId docId) w)
      | None \<Rightarrow> k ((called (ChatSet userId docId) w)
                     \<lparr>chats := (chats w)((userId, docId) \<mapsto> doc)\<rparr>))"

text \<open>The body of the \<open>try\<close> block: the error raised, or the value returned.\<close>

definition askGemini_try ::
  "env \<Rightarrow> call_context \<Rightarrow> jsval \<Rightarrow> askGeminiResult action" where
  "askGemini_try env ctx d =
     andThen (validateAuth ctx) (\<lambda>userId.
     andThen (validateRequiredFields (numberToString env) d
                [js ''question'', js ''farmProfile'', js ''language'']) (\<lambda>_.
     andThen (validateTextLength (getProp d (js ''question'')) 1000) (\<lambda>question.
     andThen (validateLanguage (numberToString env) (getProp d (js ''language''))) (\<lambda>language.
     let farmProfile = getProp d (js ''farmProfile'') in
     if \<not> truthy farmProfile \<or> \<not> typeof_object farmProfile
     then throw (Error (js ''Invalid farm profile''))
     else if apiKeyMissing env
     then throw (Error (js ''Gemini API key not configured. Please set GEMINI_API_KEY in functions/.env''))
     else
     andThen (buildAgriculturalPrompt (numberToString env) farmProfile language question)
       (\<lambda>systemPrompt.
     callExt (GeminiGenerate systemPrompt) (generateContent env systemPrompt) (\<lambda>responseText.
     andThen (parseResponse (jsonParse env) responseText) (\<lambda>r.
     writeChat env userId (newChatId env) (chatRecord question r language farmProfile)
       (return (aiResponse.extend r \<lparr> chatId = newChatId env \<rparr>)))))))))"

text \<open>The \<open>catch\<close> block: every error leaves as an \<open>HttpsError\<close>.\<close>

definition askGemini_catch :: "js_error \<Rightarrow> https_error" where
  "askGemini_catch e =
     (if includesStr (message e) (js ''API key'')
      then HttpsError (js ''failed-precondition'')
             (js ''Gemini API key not configured. Please contact support.'')
      else HttpsError (js ''internal'') (js ''Failed to get AI response: '' @ message e))"

definition askGemini ::
  "env \<Rightarrow> call_context \<Rightarrow> jsval \<Rightarrow> world \<Rightarrow> (https_error + askGeminiResult) \<times> world" where
  "askGemini env ctx d w =
     (case askGemini_try env ctx d w of
        (Inl e, w') \<Rightarrow> (Inl (askGemini_catch e), w')
      | (Inr r, w') \<Rightarrow> (Inr r, w'))"

subsection \<open>transcribeAudio\<close>

definition languageCodeMap :: "(jsstring \<times> jsstring) list" where
  "languageCodeMap =
     [(js ''en'', js ''en-IN''), (js ''hi'', js ''hi-IN''),
      (js ''ta'', js ''ta-IN''), (js ''te'', js ''te-IN'')]"

text \<open>\<open>result.alternatives[0]\<close>: the first alternative, or \<open>undefined\<close>.\<close>

definition firstAlternative :: "speech_result \<Rightarrow> alternative option" where
  "firstAlternative r = (case alternatives r of [] \<Rightarrow> None | a # _ \<Rightarrow> Some a)"

text \<open>
  \<open>.filter((alternative) => alternative && alternative.transcript)\<close> keeps the
  alternatives that exist and have a non-empty transcript, so the \<open>.map\<close> after it
  meets no \<open>undefined\<close>.
\<close>

definition transcriptOf :: "speech_result list \<Rightarrow> jsstring" where
  "transcriptOf rs =
     joinWith (js '' '')
       (map (\<lambda>a. case a of None \<Rightarrow> [] | Some x \<Rightarrow> transcript x)
          (filter (\<lambda>a. case a of None \<Rightarrow> False | Some x \<Rightarrow> transcript x \<noteq> [])
             (map firstAlternative rs)))"

text \<open>\<open>result.alternatives[0]?.confidence || 0\<close>\<close>

definition segmentScore :: "speech_result \<Rightarrow> rat" where
  "segmentScore r = (case firstAlternative r of None \<Rightarrow> 0 | Some a \<Rightarrow> alt_confidence a)"

definition confidenceScores :: "speech_result list \<Rightarrow> rat list" where
  "confidenceScores rs = filter (\<lambda>score. score > 0) (map segmentScore rs)"

text \<open>
  The arithmetic of the scores is that of doubles: the sum, product and quotient of two
  doubles is the exact result rounded to a double, and \<open>roundDouble env\<close> is that
  rounding (the results here are finite: the operands are scores, their count and 100).
  The comparison \<open>score > 0\<close> and the conversion of the count are exact.
\<close>

definition numAdd :: "env \<Rightarrow> rat \<Rightarrow> rat \<Rightarrow> rat" where
  "numAdd env a b = roundDouble env (a + b)"

definition numMul :: "env \<Rightarrow> rat \<Rightarrow> rat \<Rightarrow> rat" where
  "numMul env a b = roundDouble env (a * b)"

definition numDiv :: "env \<Rightarrow> rat \<Rightarrow> rat \<Rightarrow> rat" where
  "numDiv env a b = roundDouble env (a / b)"

definition avgConfidence :: "env \<Rightarrow> speech_result list \<Rightarrow> rat" where
  "avgConfidence env rs =
     (if length (confidenceScores rs) > 0
      then numDiv env (foldl (\<lambda>sum score. numAdd env sum score) 0 (confidenceScores rs))
             (of_nat (length (confidenceScores rs)))
      else 0)"

text \<open>
  \<open>Math.round\<close> gives the integer nearest to its argument, a half going up; the result
  is exact.
\<close>

definition Math_round :: "rat \<Rightarrow> rat" where
  "Math_round x = of_int \<lfloor>x + 1 / 2\<rfloor>"

definition transcriptionOf :: "env \<Rightarrow> recognize_response \<Rightarrow> transcription" where
  "transcriptionOf env response =
     (case results response of
        None \<Rightarrow>
          \<lparr> tr_transcript = [], tr_confidence = 0,
            tr_message = Some (js ''No speech detected in audio'') \<rparr>
      | Some rs \<Rightarrow>
          if length rs = 0
          then \<lparr> tr_transcript = [], tr_confidence = 0,
                 tr_message = Some (js ''No speech detected in audio'') \<rparr>
          else \<lparr> tr_transcript = trim (transcriptOf rs),
                 tr_confidence =
                   numDiv env (Math_round (numMul env (avgConfidence env rs) 100)) 100,
                 tr_message = None \<rparr>)"

definition recognizeRequest :: "env \<Rightarrow> jsstring \<Rightarrow> jsstring \<Rightarrow> recognize_request" where
  "recognizeRequest env audioPath language =
     \<lparr> uri = js ''gs://'' @ bucketName env @ js ''/'' @ audioPath,
       encoding = js ''WEBM_OPUS'',
       sampleRateHertz = 48000,
       languageCode = (case map_of languageCodeMap language of
                         Some c \<Rightarrow> c | None \<Rightarrow> js ''en-IN''),
       enableAutomaticPunctuation = True,
       model = js ''default'',
       useEnhanced = True \<rparr>"

definition transcribeAudio_try ::
  "env \<Rightarrow> call_context \<Rightarrow> jsval \<Rightarrow> transcription action" where
  "transcribeAudio_try env ctx d =
     andThen (validateAuth ctx) (\<lambda>userId.
     andThen (validateRequiredFields (numberToString env) d
                [js ''audioPath'', js ''language'']) (\<lambda>_.
     andThen (validateAudioPath (getProp d (js ''audioPath''))) (\<lambda>audioPath.
     andThen (validateLanguage (numberToString env) (getProp d (js ''language''))) (\<lambda>language.
     if \<not> includesStr audioPath (js ''audio/'' @ userId @ js ''/'')
     then throw (Error (js ''Unauthorized: Cannot access audio file''))
     else
     callExt (FileExists audioPath) (fileExists env audioPath) (\<lambda>exists.
     if \<not> exists then throw (Error (js ''Audio file not found''))
     else
     callExt (GetSignedUrl audioPath (dateNow env 0 + 5 * 60 * 1000))
       (getSignedUrl env audioPath (dateNow env 0 + 5 * 60 * 1000)) (\<lambda>url.
     callExt (Recognize (recognizeRequest env audioPath language))
       (recognize env (recognizeRequest env audioPath language)) (\<lambda>response.
     return (transcriptionOf env response))))))))"

definition transcribeAudio ::
  "env \<Rightarrow> call_context \<Rightarrow> jsval \<Rightarrow> world \<Rightarrow> (https_error + transcription) \<times> world" where
  "transcribeAudio env ctx d w =
     (case transcribeAudio_try env ctx d w of
        (Inl e, w') \<Rightarrow>
          (Inl (HttpsError (js ''internal'') (js ''Failed to transcribe audio: '' @ message e)), w')
      | (Inr r, w') \<Rightarrow> (Inr r, w'))"

subsection \<open>synthesizeSpeech\<close>

definition voiceConfig :: "(jsstring \<times> voice) list" where
  "voiceConfig =
     [(js ''en'', \<lparr> voice_languageCode = js ''en-IN'', voiceName = js ''en-IN-Wavenet-D'',
                   ssmlGender = js ''FEMALE'' \<rparr>),
      (js ''hi'', \<lparr> voice_languageCode = js ''hi-IN'', voiceName = js ''hi-IN-Wavenet-D'',
                   ssmlGender = js ''FEMALE'' \<rparr>),
      (js ''ta'', \<lparr> voice_languageCode = js ''ta-IN'', voiceName = js ''ta-IN-Wavenet-A'',
                   ssmlGender = js ''FEMALE'' \<rparr>),
      (js ''te'', \<lparr> voice_languageCode = js ''te-IN'', voiceName = js ''te-IN-Standard-A'',
                   ssmlGender = js ''FEMALE'' \<rparr>)]"

text \<open>\<open>voiceConfig[language] || voiceConfig.en\<close>\<close>

definition voiceFor :: "jsstring \<Rightarrow> voice" where
  "voiceFor language =
     (case map_of voiceConfig language of
        Some v \<Rightarrow> v
      | None \<Rightarrow> \<lparr> voice_languageCode = js ''en-IN'', voiceName = js ''en-IN-Wavenet-D'',
                  ssmlGender = js ''FEMALE'' \<rparr>)"

definition ttsRequest :: "jsstring \<Rightarrow> jsstring \<Rightarrow> tts_request" where
  "ttsRequest txt language =
     \<lparr> input_text = txt,
       tts_voice = voiceFor language,
       audioEncoding = js ''MP3'',
       speakingRate = 95 / 100,
       pitch = 0,
       volumeGainDb = 0 \<rparr>"

definition fileNameFor :: "env \<Rightarrow> jsstring \<Rightarrow> jsstring" where
  "fileNameFor env userId =
     js ''audio/'' @ userId @ js ''/response-'' @ showNat (dateNow env 0) @ js ''.mp3''"

definition audioBlob :: "env \<Rightarrow> 8 word list \<Rightarrow> jsstring \<Rightarrow> jsstring \<Rightarrow> blob" where
  "audioBlob env audioContent userId language =
     \<lparr> blob_content = audioContent, contentType = js ''audio/mpeg'',
       meta_userId = userId, meta_language = language, meta_generatedAt = isoNow env \<rparr>"

text \<open>\<open>await file.save(content, options)\<close>\<close>

definition saveFile :: "env \<Rightarrow> jsstring \<Rightarrow> blob \<Rightarrow> 'a action \<Rightarrow> 'a action" where
  "saveFile env fileName b k w =
     (case fileSave env fileName b of
        Some e \<Rightarrow> (Inl e, called (FileSave fileName) w)
      | None \<Rightarrow> k ((called (FileSave fileName) w)\<lparr>blobs := (blobs w)(fileName \<mapsto> b)\<rparr>))"

text \<open>\<open>if (!response.audioContent) throw ...\<close>: a missing payload is \<open>None\<close>.\<close>

definition requireAudio :: "8 word list option \<Rightarrow> js_error + 8 word list" where
  "requireAudio c =
     (case c of None \<Rightarrow> Inl (Error (js ''No audio content generated'')) | Some a \<Rightarrow> Inr a)"

definition synthesizeSpeech_try ::
  "env \<Rightarrow> call_context \<Rightarrow> jsval \<Rightarrow> synthesis action" where
  "synthesizeSpeech_try env ctx d =
     andThen (validateAuth ctx) (\<lambda>userId.
     andThen (validateRequiredFields (numberToString env) d [js ''text'', js ''language'']) (\<lambda>_.
     andThen (validateTextLength (getProp d (js ''text'')) 5000) (\<lambda>txt.
     andThen (validateLanguage (numberToString env) (getProp d (js ''language''))) (\<lambda>language.
     callExt (Synthesize (ttsRequest txt language)) (synthesize env (ttsRequest txt language))
       (\<lambda>response.
     andThen (requireAudio response) (\<lambda>audioContent.
     saveFile env (fileNameFor env userId) (audioBlob env audioContent userId language)
       (callExt (GetSignedUrl (fileNameFor env userId) (dateNow env 1 + 7 * 24 * 60 * 60 * 1000))
          (getSignedUrl env (fileNameFor env userId) (dateNow env 1 + 7 * 24 * 60 * 60 * 1000))
          (\<lambda>url.
     return \<lparr> audioUrl = url, storagePath = fileNameFor env userId \<rparr>))))))))"

definition synthesizeSpeech ::
  "env \<Rightarrow> call_context \<Rightarrow> jsval \<Rightarrow> world \<Rightarrow> (https_error + synthesis) \<times> world" where
  "synthesizeSpeech env ctx d w =
     (case synthesizeSpeech_try env ctx d w of
        (Inl e, w') \<Rightarrow>
          (Inl (HttpsError (js ''internal'') (js ''Failed to synthesize speech: '' @ message e)), w')
      | (Inr r, w') \<Rightarrow> (Inr r, w'))"

section \<open>The specification's notions, and sample inputs\<close>

text \<open>
  The specification speaks of the arithmetic mean of the confidence scores, rounded to
  two decimal places: both in the arithmetic of the rationals.
\<close>

definition meanOfScores :: "rat list \<Rightarrow> rat" where
  "meanOfScores xs = (if xs = [] then 0 else sum_list xs / of_nat (length xs))"

definition roundTo2 :: "rat \<Rightarrow> rat" where
  "roundTo2 x = of_int \<lfloor>x * 100 + 1 / 2\<rfloor> / 100"

text \<open>\<open>typeof v === "string"\<close>\<close>

fun isString :: "jsval \<Rightarrow> bool" where
  "isString (JStr s) = True"
| "isString v = False"

text \<open>
  A sample environment: every service answers, the recogniser with two segments, the
  first with the score 1 and the second without a score (the value 0). Its number
  printing is that of the natural numbers, the only numbers the samples print. The
  numbers its handlers compute with are 0, 1 and 100, on which every operation of
  doubles is exact: its rounding leaves a number as it is.
\<close>

definition sampleResults :: "speech_result list" where
  "sampleResults =
     [\<lparr> alternatives = [\<lparr> transcript = js ''namaste'', alt_confidence = 1 \<rparr>] \<rparr>,
      \<lparr> alternatives = [\<lparr> transcript = js ''kisan'', alt_confidence = 0 \<rparr>] \<rparr>]"

definition sampleEnv :: env where
  "sampleEnv =
     \<lparr> numberToString = (\<lambda>r. showNat (nat \<lfloor>r\<rfloor>)),
       roundDouble = (\<lambda>x. x),
       jsonParse = JSON_parse_object,
       GEMINI_API_KEY = Some (js ''key-1''),
       generateContent = (\<lambda>p. Inr (js ''{\"answer\":\"ok\",\"confidence\":\"VeryHigh\"}'')),
       newChatId = js ''c1'',
       chatSet = (\<lambda>u i r. None),
       bucketName = js ''bucket'',
       fileExists = (\<lambda>p. Inr True),
       getSignedUrl = (\<lambda>p e. Inr (js ''https://signed'')),
       recognize = (\<lambda>r. Inr \<lparr> results = Some sampleResults \<rparr>),
       synthesize = (\<lambda>r. Inr (Some [1, 2, 3])),
       fileSave = (\<lambda>p b. None),
       dateNow = (\<lambda>k. 1700000000000 + k),
       isoNow = js ''2023-11-14T22:13:20.000Z'' \<rparr>"

definition emptyWorld :: world where
  "emptyWorld = \<lparr> calls = [], chats = Map.empty, blobs = Map.empty \<rparr>"

definition sampleContext :: call_context where
  "sampleContext = \<lparr> auth = Some \<lparr> uid = js ''u123'' \<rparr> \<rparr>"

definition noAuthContext :: call_context where
  "noAuthContext = \<lparr> auth = None \<rparr>"

definition sampleQuestion :: jsval where
  "sampleQuestion =
     JObj [(js ''question'', JStr (js ''How do I treat leaf rust?'')),
           (js ''farmProfile'', JObj [(js ''crops'', JArr [JStr (js ''wheat'')])]),
           (js ''language'', JStr (js ''hi''))]"

definition blankQuestion :: jsval where
  "blankQuestion =
     JObj [(js ''question'', JStr (js ''   '')),
           (js ''farmProfile'', JObj []),
           (js ''language'', JStr (js ''en''))]"

definition ownAudioRequest :: jsval where
  "ownAudioRequest =
     JObj [(js ''audioPath'', JStr (js ''audio/u123/rec.webm'')),
           (js ''language'', JStr (js ''ta''))]"

definition crossUserRequest :: jsval where
  "crossUserRequest =
     JObj [(js ''audioPath'', JStr (js ''audio/otherUser/audio/u123/rec.webm'')),
           (js ''language'', JStr (js ''en''))]"

definition speechRequest :: jsval where
  "speechRequest =
     JObj [(js ''text'', JStr (js ''namaste'')), (js ''language'', JStr (js ''hi''))]"

section \<open>Facts about the string and sequencing primitives\<close>

lemma of_char_word16_eq_iff: "(of_char c :: 16 word) = of_char d \<longleftrightarrow> c = d"
proof
  assume "(of_char c :: 16 word) = of_char d"
  then have "(of_nat (of_char c) :: 16 word) = of_nat (of_char d)"
    by (simp add: of_nat_of_char)
  then have "take_bit 16 (of_char c :: nat) = take_bit 16 (of_char d :: nat)"
    by (simp add: word_of_nat_eq_iff)
  moreover have "take_bit 16 (of_char x :: nat) = of_char x" for x
  proof (rule take_bit_nat_eq_self)
    have "(256 :: nat) < 2 ^ 16" by simp
    then show "(of_char x :: nat) < 2 ^ 16" by (rule less_trans [OF nat_of_char_less_256])
  qed
  ultimately show "c = d" by simp
qed simp

lemma js_eq_iff [simp]: "js a = js b \<longleftrightarrow> a = b"
  unfolding js_def by (rule inj_map_eq_map) (simp add: inj_on_def of_char_word16_eq_iff)

lemma js_Nil [simp]: "js [] = []"
  by (simp add: js_def)

lemma js_eq_Nil [simp]: "js a = [] \<longleftrightarrow> a = []" "[] = js a \<longleftrightarrow> a = []"
  by (auto simp: js_def)

lemma length_js [simp]: "length (js a) = length a"
  by (simp add: js_def)

lemma js_append: "js a @ js b = js (a @ b)"
  by (simp add: js_def)

lemma js_Cons: "js (c # cs) = of_char c # js cs"
  by (simp add: js_def)

lemma startsWith_js [simp]: "startsWith (js a) (js b) = startsWith a b"
  by (induction a b rule: startsWith.induct) (simp_all add: js_Cons of_char_word16_eq_iff)

lemma includesStr_js [simp]: "includesStr (js a) (js b) = includesStr a b"
proof (induction a)
  case Nil then show ?case by simp
next
  case (Cons c cs)
  have "startsWith (js (c # cs)) (js b) = startsWith (c # cs) b" by (rule startsWith_js)
  with Cons show ?case by (simp add: js_Cons)
qed

lemma startsWith_prefix: "startsWith s p \<longleftrightarrow> prefix p s"
  by (induction s p rule: startsWith.induct) auto

lemma includesStr_sublist: "includesStr s p \<longleftrightarrow> (\<exists>a b. s = a @ p @ b)"
proof (induction s)
  case Nil then show ?case by simp
next
  case (Cons c cs)
  show ?case
  proof
    assume "includesStr (c # cs) p"
    then consider "startsWith (c # cs) p" | "includesStr cs p" by auto
    then show "\<exists>a b. c # cs = a @ p @ b"
    proof cases
      case 1
      then obtain b where "c # cs = p @ b" by (auto simp: startsWith_prefix prefix_def)
      then have "c # cs = [] @ p @ b" by simp
      then show ?thesis by blast
    next
      case 2
      with Cons obtain a b where "cs = a @ p @ b" by blast
      then have "c # cs = (c # a) @ p @ b" by simp
      then show ?thesis by blast
    qed
  next
    assume "\<exists>a b. c # cs = a @ p @ b"
    then obtain a b where ab: "c # cs = a @ p @ b" by blast
    show "includesStr (c # cs) p"
    proof (cases a)
      case Nil
      with ab have "prefix p (c # cs)" by (simp add: prefix_def)
      then show ?thesis by (simp add: startsWith_prefix)
    next
      case (Cons x xs)
      with ab have "cs = xs @ p @ b" by simp
      with Cons.IH show ?thesis by auto
    qed
  qed
qed

lemmas step_defs = andThen_def callExt_def called_def throw_def return_def

lemma validateLanguage_Inr:
  "validateLanguage ns v = Inr l \<Longrightarrow> v = JStr l \<and> l \<in> set supportedLanguages"
  by (cases v) (auto simp: validateLanguage_def split: if_splits)

lemma tables_total:
  "l \<in> set supportedLanguages \<Longrightarrow>
     map_of voiceConfig l = Some (voiceFor l) \<and>
     voice_languageCode (voiceFor l) = l @ js ''-IN'' \<and>
     map_of languageCodeMap l = Some (l @ js ''-IN'')"
  by (auto simp: supportedLanguages_def voiceConfig_def voiceFor_def languageCodeMap_def js_append)

lemma andThen_Inl [simp]: "andThen (Inl e) k w = (Inl e, w)"
  by (simp add: andThen_def)

lemma andThen_Inr [simp]: "andThen (Inr x) k w = k x w"
  by (simp add: andThen_def)

lemma andThen_Inr_iff:
  "andThen r k w = (Inr x, w') \<longleftrightarrow> (\<exists>y. r = Inr y \<and> k y w = (Inr x, w'))"
  by (cases r) simp_all

lemma andThen_Inl_iff:
  "andThen r k w = (Inl e, w') \<longleftrightarrow>
     (r = Inl e \<and> w' = w) \<or> (\<exists>y. r = Inr y \<and> k y w = (Inl e, w'))"
  by (cases r) auto

lemma callExt_Inr_iff:
  "callExt c r k w = (Inr x, w') \<longleftrightarrow> (\<exists>y. r = Inr y \<and> k y (called c w) = (Inr x, w'))"
  by (simp add: callExt_def andThen_Inr_iff)

lemma callExt_Inl_iff:
  "callExt c r k w = (Inl e, w') \<longleftrightarrow>
     (r = Inl e \<and> w' = called c w) \<or> (\<exists>y. r = Inr y \<and> k y (called c w) = (Inl e, w'))"
  by (simp add: callExt_def andThen_Inl_iff)

lemma throw_iff [simp]:
  "throw e w = (Inr x, w') \<longleftrightarrow> False"
  "throw e w = (Inl e', w') \<longleftrightarrow> e' = e \<and> w' = w"
  by (auto simp: throw_def)

lemma return_iff [simp]:
  "return y w = (Inr x, w') \<longleftrightarrow> x = y \<and> w' = w"
  "return y w = (Inl e, w') \<longleftrightarrow> False"
  by (auto simp: return_def)

lemma writeChat_Inr_iff:
  "writeChat env u i doc k w = (Inr x, w') \<longleftrightarrow>
     chatSet env u i doc = None \<and>
     k ((called (ChatSet u i) w)\<lparr>chats := (chats w)((u, i) \<mapsto> doc)\<rparr>) = (Inr x, w')"
  by (cases "chatSet env u i doc") (simp_all add: writeChat_def)

lemma writeChat_Inl_iff:
  "writeChat env u i doc k w = (Inl e, w') \<longleftrightarrow>
     (chatSet env u i doc = Some e \<and> w' = called (ChatSet u i) w) \<or>
     (chatSet env u i doc = None \<and>
      k ((called (ChatSet u i) w)\<lparr>chats := (chats w)((u, i) \<mapsto> doc)\<rparr>) = (Inl e, w'))"
  by (cases "chatSet env u i doc") (auto simp: writeChat_def)

lemma saveFile_Inr_iff:
  "saveFile env f b k w = (Inr x, w') \<longleftrightarrow>
     fileSave env f b = None \<and>
     k ((called (FileSave f) w)\<lparr>blobs := (blobs w)(f \<mapsto> b)\<rparr>) = (Inr x, w')"
  by (cases "fileSave env f b") (simp_all add: saveFile_def)

lemma askGemini_Inr_iff:
  "askGemini env ctx d w = (Inr res, w') \<longleftrightarrow> askGemini_try env ctx d w = (Inr res, w')"
  by (auto simp: askGemini_def split: prod.splits sum.splits)

lemma askGemini_Inl_iff:
  "askGemini env ctx d w = (Inl err, w') \<longleftrightarrow>
     (\<exists>e. askGemini_try env ctx d w = (Inl e, w') \<and> err = askGemini_catch e)"
  by (auto simp: askGemini_def split: prod.splits sum.splits)

lemma transcribeAudio_Inr_iff:
  "transcribeAudio env ctx d w = (Inr res, w') \<longleftrightarrow> transcribeAudio_try env ctx d w = (Inr res, w')"
  by (auto simp: transcribeAudio_def split: prod.splits sum.splits)

text \<open>A successful run of askGemini, step by step.\<close>

lemma askGemini_try_Inr:
  assumes "askGemini_try env ctx d w = (Inr res, w')"
  shows "\<exists>userId question language systemPrompt responseText r.
           validateAuth ctx = Inr userId \<and>
           validateTextLength (getProp d (js ''question'')) 1000 = Inr question \<and>
           validateLanguage (numberToString env) (getProp d (js ''language'')) = Inr language \<and>
           buildAgriculturalPrompt (numberToString env) (getProp d (js ''farmProfile''))
             language question = Inr systemPrompt \<and>
           generateContent env systemPrompt = Inr responseText \<and>
           parseResponse (jsonParse env) responseText = Inr r \<and>
           chatSet env userId (newChatId env)
             (chatRecord question r language (getProp d (js ''farmProfile''))) = None \<and>
           res = aiResponse.extend r \<lparr> chatId = newChatId env \<rparr> \<and>
           w' = w\<lparr>calls := calls w @ [GeminiGenerate systemPrompt, ChatSet userId (newChatId env)],
                  chats := (chats w)((userId, newChatId env) \<mapsto>
                    chatRecord question r language (getProp d (js ''farmProfile'')))\<rparr>"
  using assms unfolding askGemini_try_def Let_def
  by (auto simp: andThen_Inr_iff callExt_Inr_iff writeChat_Inr_iff called_def split: if_splits)

text \<open>A failed run of askGemini: nothing is stored, and a write that was sent has failed.\<close>

lemma askGemini_try_Inl:
  assumes "askGemini_try env ctx d w = (Inl e, w')"
  shows "chats w' = chats w \<and> blobs w' = blobs w \<and>
         (calls w' = calls w \<or>
          (\<exists>p. calls w' = calls w @ [GeminiGenerate p]) \<or>
          (\<exists>p u doc. calls w' = calls w @ [GeminiGenerate p, ChatSet u (newChatId env)] \<and>
             chatSet env u (newChatId env) doc = Some e))"
  using assms unfolding askGemini_try_def Let_def
  by (auto simp: andThen_Inl_iff callExt_Inl_iff writeChat_Inl_iff called_def split: if_splits)

lemmas run_defs =
  askGemini_def askGemini_try_def askGemini_catch_def writeChat_def
  transcribeAudio_def transcribeAudio_try_def synthesizeSpeech_def synthesizeSpeech_try_def
  saveFile_def requireAudio_def callExt_def called_def throw_def return_def
  validateAuth_def validateRequiredFields_def validateTextLength_def validateLanguage_def
  validateAudioPath_def supportedLanguages_def apiKeyMissing_def
  buildAgriculturalPrompt_def cropsText_def arrayJoin_def orNotSpecified_def optProp_def
  areaText_def languageNames_def
  parseResponse_def parseReply_def normalizeResponse_def chatRecord_def
  validConfidenceLevels_def InvalidAIResponseError_def orElse_def Let_def js_append

lemmas sample_defs =
  sampleEnv_def emptyWorld_def sampleContext_def noAuthContext_def sampleQuestion_def
  blankQuestion_def ownAudioRequest_def crossUserRequest_def speechRequest_def

lemmas json_defs = JSON_parse_object_def JSON_parse_def js_def skipWs_def isJsonWs_def
  parseNumber_def parseInt_def parseFrac_def parseExp_def isDigit_def digitsValue_def

text \<open>The sample texts, evaluated once.\<close>

lemma extract_sample_reply:
  "extractJson (js ''{\"answer\":\"ok\",\"confidence\":\"VeryHigh\"}'') =
     Some (js ''{\"answer\":\"ok\",\"confidence\":\"VeryHigh\"}'')"
  by (simp add: extractJson_def js_def)

lemma parse_sample_reply:
  "JSON_parse_object (js ''{\"answer\":\"ok\",\"confidence\":\"VeryHigh\"}'') =
     Some [(js ''answer'', JStr (js ''ok'')), (js ''confidence'', JStr (js ''VeryHigh''))]"
  by (simp add: json_defs)

lemma trim_sample_question:
  "trim (js ''How do I treat leaf rust?'') = js ''How do I treat leaf rust?''"
  by (simp add: js_def trim_def isWhiteSpace_def)

lemma trim_blank: "trim (js ''   '') = []"
  by (simp add: js_def trim_def isWhiteSpace_def)

lemma extract_plain_text: "extractJson (js ''I recommend crop rotation.'') = None"
  by (simp add: extractJson_def js_def)

lemma extract_braces: "extractJson (js ''Use {urea} now'') = Some (js ''{urea}'')"
  by (simp add: extractJson_def js_def)

lemma parse_braces: "JSON_parse_object (js ''{urea}'') = None"
  by (simp add: json_defs)



section \<open>The response parser\<close>

text \<open>
  Claim C4, as the code has it: when the reply has no \<open>{...}\<close> part, or that part is not
  JSON, lines 54 to 72 assign the degraded response and raise nothing; the parser then
  returns it for every reply but the empty one, whose degraded answer is the empty
  string, which the check of line 75 rejects with "Invalid AI response".
\<close>

theorem fallback_for_nonconformant_reply:
  assumes "extractJson t = None \<or> (\<exists>m. extractJson t = Some m \<and> jp m = None)"
  shows "parseReply jp t = fallbackResponse t \<and>
         (t \<noteq> [] \<longrightarrow> parseResponse jp t =
            Inr \<lparr> answer = JStr t, confidence = JStr (js ''Medium''),
                  sources = JArr [JStr (js ''Gemini AI'')], suggestions = JArr [] \<rparr>) \<and>
         (t = [] \<longrightarrow> parseResponse jp t = Inl InvalidAIResponseError)"
proof -
  from assms have fb: "parseReply jp t = fallbackResponse t"
    by (auto simp: parseReply_def)
  show ?thesis
    unfolding parseResponse_def fb
    by (simp add: normalizeResponse_def fallbackResponse_def validConfidenceLevels_def)
qed

text \<open>
  The reply \<open>I recommend crop rotation.\<close> of the specification has no braces; the reply
  \<open>Use {urea} now\<close> has braces around a text that is not JSON.
\<close>

theorem fallback_for_nonconformant_reply_witness:
  "extractJson (js ''I recommend crop rotation.'') = None \<and>
   parseResponse JSON_parse_object (js ''I recommend crop rotation.'') =
     Inr \<lparr> answer = JStr (js ''I recommend crop rotation.''), confidence = JStr (js ''Medium''),
           sources = JArr [JStr (js ''Gemini AI'')], suggestions = JArr [] \<rparr> \<and>
   extractJson (js ''Use {urea} now'') = Some (js ''{urea}'') \<and>
   JSON_parse_object (js ''{urea}'') = None \<and>
   parseResponse JSON_parse_object (js ''Use {urea} now'') =
     Inr \<lparr> answer = JStr (js ''Use {urea} now''), confidence = JStr (js ''Medium''),
           sources = JArr [JStr (js ''Gemini AI'')], suggestions = JArr [] \<rparr>"
  using fallback_for_nonconformant_reply [of "js ''I recommend crop rotation.''" JSON_parse_object]
    fallback_for_nonconformant_reply [of "js ''Use {urea} now''" JSON_parse_object]
    extract_plain_text extract_braces parse_braces
  by simp

text \<open>
  Claim C4 as stated fails at the empty reply: it has no \<open>{...}\<close> part, and the parser
  raises.
\<close>

theorem empty_reply_raises:
  "extractJson [] = None \<and> parseResponse JSON_parse_object [] = Inl InvalidAIResponseError"
  by (simp add: extractJson_def parseResponse_def parseReply_def normalizeResponse_def
      fallbackResponse_def)




section \<open>Authentication comes first\<close>

lemma validateAuth_Inl:
  "auth ctx = None \<or> (\<exists>a. auth ctx = Some a \<and> uid a = []) \<Longrightarrow>
   \<exists>m \<in> {''Unauthenticated: No auth token provided'', ''Unauthenticated: Invalid auth token''}.
     validateAuth ctx = Inl (Error (js m))"
  by (auto simp: validateAuth_def)

lemma transcribeAudio_Inl_internal:
  "transcribeAudio env c p v = (Inl err, v') \<Longrightarrow> err_code err = js ''internal''"
  by (auto simp: transcribeAudio_def split: prod.splits sum.splits)

lemma synthesizeSpeech_Inl_internal:
  "synthesizeSpeech env c p v = (Inl err, v') \<Longrightarrow> err_code err = js ''internal''"
  by (auto simp: synthesizeSpeech_def split: prod.splits sum.splits)

lemma askGemini_Inl_kind:
  assumes "askGemini env c p v = (Inl err, v')"
  shows "\<exists>e. askGemini_try env c p v = (Inl e, v') \<and>
           err_code err = (if includesStr (message e) (js ''API key'')
                           then js ''failed-precondition'' else js ''internal'')"
  using assms by (auto simp: askGemini_Inl_iff askGemini_catch_def)

lemma askGemini_missing_key:
  assumes "validateAuth c = Inr userId"
    and "validateRequiredFields (numberToString env) p
           [js ''question'', js ''farmProfile'', js ''language''] = Inr ()"
    and "validateTextLength (getProp p (js ''question'')) 1000 = Inr question"
    and "validateLanguage (numberToString env) (getProp p (js ''language'')) = Inr language"
    and "truthy (getProp p (js ''farmProfile''))"
    and "typeof_object (getProp p (js ''farmProfile''))"
    and "apiKeyMissing env"
  shows "askGemini env c p v =
     (Inl (HttpsError (js ''failed-precondition'')
             (js ''Gemini API key not configured. Please contact support.'')), v)"
proof -
  have k: "includesStr
      (js ''Gemini API key not configured. Please set GEMINI_API_KEY in functions/.env'')
      (js ''API key'')"
    by simp
  from assms have "askGemini_try env c p v =
      (Inl (Error (js ''Gemini API key not configured. Please set GEMINI_API_KEY in functions/.env'')), v)"
    by (simp add: askGemini_try_def throw_def)
  with k show ?thesis by (simp add: askGemini_def askGemini_catch_def)
qed

lemma sample_question_checks:
  "validateAuth sampleContext = Inr (js ''u123'')"
  "validateRequiredFields (numberToString env) sampleQuestion
     [js ''question'', js ''farmProfile'', js ''language''] = Inr ()"
  "validateTextLength (getProp sampleQuestion (js ''question'')) 1000 =
     Inr (js ''How do I treat leaf rust?'')"
  "validateLanguage (numberToString env) (getProp sampleQuestion (js ''language'')) = Inr (js ''hi'')"
  "truthy (getProp sampleQuestion (js ''farmProfile''))"
  "typeof_object (getProp sampleQuestion (js ''farmProfile''))"
  by (simp_all add: validateAuth_def sampleContext_def validateRequiredFields_def
      sampleQuestion_def validateTextLength_def validateLanguage_def supportedLanguages_def
      trim_sample_question)

text \<open>
  Claim C2, as the code has it: a call whose context has no \<open>auth\<close>, or an \<open>auth\<close> with an
  empty user id, fails in each of the three handlers whatever the payload and the
  environment are, with the state as it was (no request sent, nothing written). The
  error that leaves the handler is an \<open>HttpsError\<close> of code \<open>internal\<close> whose message is the
  prefix of the handler followed by the \<open>Unauthenticated:\<close> text. That code is not the
  code \<open>failed-precondition\<close> with which askGemini answers an authenticated, valid request
  when the API key is missing. It is the code of other failures as well: every error
  that leaves transcribeAudio or synthesizeSpeech has the code \<open>internal\<close>, and an error
  that leaves askGemini has it exactly when the message of the error caught does not
  contain \<open>API key\<close> (and has the code \<open>failed-precondition\<close> when it does).
\<close>

theorem unauthenticated_call_fails_first:
  assumes "auth ctx = None \<or> (\<exists>a. auth ctx = Some a \<and> uid a = [])"
  shows "(\<exists>m \<in> {''Unauthenticated: No auth token provided'', ''Unauthenticated: Invalid auth token''}.
           askGemini env ctx d w =
             (Inl (HttpsError (js ''internal'') (js ''Failed to get AI response: '' @ js m)), w) \<and>
           transcribeAudio env ctx d w =
             (Inl (HttpsError (js ''internal'') (js ''Failed to transcribe audio: '' @ js m)), w) \<and>
           synthesizeSpeech env ctx d w =
             (Inl (HttpsError (js ''internal'') (js ''Failed to synthesize speech: '' @ js m)), w)) \<and>
         (\<forall>c p v userId question language.
            validateAuth c = Inr userId \<and>
            validateRequiredFields (numberToString env) p
              [js ''question'', js ''farmProfile'', js ''language''] = Inr () \<and>
            validateTextLength (getProp p (js ''question'')) 1000 = Inr question \<and>
            validateLanguage (numberToString env) (getProp p (js ''language'')) = Inr language \<and>
            truthy (getProp p (js ''farmProfile'')) \<and>
            typeof_object (getProp p (js ''farmProfile'')) \<and>
            apiKeyMissing env \<longrightarrow>
            askGemini env c p v =
              (Inl (HttpsError (js ''failed-precondition'')
                      (js ''Gemini API key not configured. Please contact support.'')), v)) \<and>
         (\<forall>c p v err v'. askGemini env c p v = (Inl err, v') \<longrightarrow>
            (\<exists>e. askGemini_try env c p v = (Inl e, v') \<and>
               err_code err = (if includesStr (message e) (js ''API key'')
                               then js ''failed-precondition'' else js ''internal''))) \<and>
         (\<forall>c p v err v'. transcribeAudio env c p v = (Inl err, v') \<longrightarrow>
            err_code err = js ''internal'') \<and>
         (\<forall>c p v err v'. synthesizeSpeech env c p v = (Inl err, v') \<longrightarrow>
            err_code err = js ''internal'')"
proof -
  from validateAuth_Inl [OF assms] obtain m where
    m: "m \<in> {''Unauthenticated: No auth token provided'', ''Unauthenticated: Invalid auth token''}"
    and v: "validateAuth ctx = Inl (Error (js m))"
    by blast
  from m have k: "\<not> includesStr m ''API key''" by auto
  have "askGemini env ctx d w =
      (Inl (HttpsError (js ''internal'') (js ''Failed to get AI response: '' @ js m)), w)"
    using k by (simp add: askGemini_def askGemini_try_def askGemini_catch_def v)
  moreover have "transcribeAudio env ctx d w =
      (Inl (HttpsError (js ''internal'') (js ''Failed to transcribe audio: '' @ js m)), w)"
    by (simp add: transcribeAudio_def transcribeAudio_try_def v)
  moreover have "synthesizeSpeech env ctx d w =
      (Inl (HttpsError (js ''internal'') (js ''Failed to synthesize speech: '' @ js m)), w)"
    by (simp add: synthesizeSpeech_def synthesizeSpeech_try_def v)
  ultimately have first: "\<exists>m \<in> {''Unauthenticated: No auth token provided'', ''Unauthenticated: Invalid auth token''}.
           askGemini env ctx d w =
             (Inl (HttpsError (js ''internal'') (js ''Failed to get AI response: '' @ js m)), w) \<and>
           transcribeAudio env ctx d w =
             (Inl (HttpsError (js ''internal'') (js ''Failed to transcribe audio: '' @ js m)), w) \<and>
           synthesizeSpeech env ctx d w =
             (Inl (HttpsError (js ''internal'') (js ''Failed to synthesize speech: '' @ js m)), w)"
    using m by blast
  show ?thesis
  proof (intro conjI allI impI)
    show "\<exists>m \<in> {''Unauthenticated: No auth token provided'', ''Unauthenticated: Invalid auth token''}.
           askGemini env ctx d w =
             (Inl (HttpsError (js ''internal'') (js ''Failed to get AI response: '' @ js m)), w) \<and>
           transcribeAudio env ctx d w =
             (Inl (HttpsError (js ''internal'') (js ''Failed to transcribe audio: '' @ js m)), w) \<and>
           synthesizeSpeech env ctx d w =
             (Inl (HttpsError (js ''internal'') (js ''Failed to synthesize speech: '' @ js m)), w)"
      by (rule first)
  next
    fix c p v userId question language
    assume "validateAuth c = Inr userId \<and>
            validateRequiredFields (numberToString env) p
              [js ''question'', js ''farmProfile'', js ''language''] = Inr () \<and>
            validateTextLength (getProp p (js ''question'')) 1000 = Inr question \<and>
            validateLanguage (numberToString env) (getProp p (js ''language'')) = Inr language \<and>
            truthy (getProp p (js ''farmProfile'')) \<and>
            typeof_object (getProp p (js ''farmProfile'')) \<and>
            apiKeyMissing env"
    then show "askGemini env c p v =
              (Inl (HttpsError (js ''failed-precondition'')
                      (js ''Gemini API key not configured. Please contact support.'')), v)"
      by (intro askGemini_missing_key) blast+
  next
    fix c p v err v'
    assume "askGemini env c p v = (Inl err, v')"
    then show "\<exists>e. askGemini_try env c p v = (Inl e, v') \<and>
               err_code err = (if includesStr (message e) (js ''API key'')
                               then js ''failed-precondition'' else js ''internal'')"
      by (rule askGemini_Inl_kind)
  next
    fix c p v err v'
    assume "transcribeAudio env c p v = (Inl err, v')"
    then show "err_code err = js ''internal''" by (rule transcribeAudio_Inl_internal)
  next
    fix c p v err v'
    assume "synthesizeSpeech env c p v = (Inl err, v')"
    then show "err_code err = js ''internal''" by (rule synthesizeSpeech_Inl_internal)
  qed
qed

text \<open>
  The sample calls without identity, and the sample question asked by an authenticated
  caller where no API key is configured.
\<close>

theorem unauthenticated_call_fails_first_witness:
  "auth noAuthContext = None \<and>
   askGemini sampleEnv noAuthContext sampleQuestion emptyWorld =
     (Inl (HttpsError (js ''internal'')
        (js ''Failed to get AI response: Unauthenticated: No auth token provided'')), emptyWorld) \<and>
   transcribeAudio sampleEnv noAuthContext ownAudioRequest emptyWorld =
     (Inl (HttpsError (js ''internal'')
        (js ''Failed to transcribe audio: Unauthenticated: No auth token provided'')), emptyWorld) \<and>
   synthesizeSpeech sampleEnv noAuthContext speechRequest emptyWorld =
     (Inl (HttpsError (js ''internal'')
        (js ''Failed to synthesize speech: Unauthenticated: No auth token provided'')), emptyWorld) \<and>
   askGemini sampleEnv \<lparr> auth = Some \<lparr> uid = [] \<rparr> \<rparr> sampleQuestion emptyWorld =
     (Inl (HttpsError (js ''internal'')
        (js ''Failed to get AI response: Unauthenticated: Invalid auth token'')), emptyWorld) \<and>
   apiKeyMissing (sampleEnv\<lparr>GEMINI_API_KEY := None\<rparr>) \<and>
   askGemini (sampleEnv\<lparr>GEMINI_API_KEY := None\<rparr>) sampleContext sampleQuestion emptyWorld =
     (Inl (HttpsError (js ''failed-precondition'')
        (js ''Gemini API key not configured. Please contact support.'')), emptyWorld) \<and>
   err_code (HttpsError (js ''internal'')
        (js ''Failed to get AI response: Unauthenticated: No auth token provided'')) = js ''internal''"
proof -
  have a: "auth noAuthContext = None \<or> (\<exists>a. auth noAuthContext = Some a \<and> uid a = [])"
    by (simp add: noAuthContext_def)
  have b: "auth \<lparr> auth = Some \<lparr> uid = [] \<rparr> \<rparr> = None \<or>
      (\<exists>a. auth \<lparr> auth = Some \<lparr> uid = [] \<rparr> \<rparr> = Some a \<and> uid a = [])"
    by simp
  have n: "validateAuth noAuthContext = Inl (Error (js ''Unauthenticated: No auth token provided''))"
    by (simp add: validateAuth_def noAuthContext_def)
  have i: "validateAuth \<lparr> auth = Some \<lparr> uid = [] \<rparr> \<rparr> = Inl (Error (js ''Unauthenticated: Invalid auth token''))"
    by (simp add: validateAuth_def)
  note t1 = unauthenticated_call_fails_first [OF a, of sampleEnv sampleQuestion emptyWorld]
  note t2 = unauthenticated_call_fails_first [OF a, of sampleEnv ownAudioRequest emptyWorld]
  note t3 = unauthenticated_call_fails_first [OF a, of sampleEnv speechRequest emptyWorld]
  note t4 = unauthenticated_call_fails_first [OF b, of sampleEnv sampleQuestion emptyWorld]
  note t5 = unauthenticated_call_fails_first
    [OF a, of "sampleEnv\<lparr>GEMINI_API_KEY := None\<rparr>" sampleQuestion emptyWorld]
  from t1 n have c1: "askGemini sampleEnv noAuthContext sampleQuestion emptyWorld =
     (Inl (HttpsError (js ''internal'')
        (js ''Failed to get AI response: Unauthenticated: No auth token provided'')), emptyWorld)"
    by (auto simp: askGemini_def askGemini_try_def askGemini_catch_def js_append)
  from t2 n have c2: "transcribeAudio sampleEnv noAuthContext ownAudioRequest emptyWorld =
     (Inl (HttpsError (js ''internal'')
        (js ''Failed to transcribe audio: Unauthenticated: No auth token provided'')), emptyWorld)"
    by (auto simp: transcribeAudio_def transcribeAudio_try_def js_append)
  from t3 n have c3: "synthesizeSpeech sampleEnv noAuthContext speechRequest emptyWorld =
     (Inl (HttpsError (js ''internal'')
        (js ''Failed to synthesize speech: Unauthenticated: No auth token provided'')), emptyWorld)"
    by (auto simp: synthesizeSpeech_def synthesizeSpeech_try_def js_append)
  from t4 i have c4: "askGemini sampleEnv \<lparr> auth = Some \<lparr> uid = [] \<rparr> \<rparr> sampleQuestion emptyWorld =
     (Inl (HttpsError (js ''internal'')
        (js ''Failed to get AI response: Unauthenticated: Invalid auth token'')), emptyWorld)"
    by (auto simp: askGemini_def askGemini_try_def askGemini_catch_def js_append)
  have k: "apiKeyMissing (sampleEnv\<lparr>GEMINI_API_KEY := None\<rparr>)"
    by (simp add: apiKeyMissing_def)
  note q = sample_question_checks
  from t5 [THEN conjunct2, THEN conjunct1, THEN spec, THEN spec, THEN spec, THEN spec,
      THEN spec, THEN spec, THEN mp, OF conjI [OF q(1) conjI [OF q(2) conjI [OF q(3)
      conjI [OF q(4) conjI [OF q(5) conjI [OF q(6) k]]]]]], of emptyWorld]
  have c5: "askGemini (sampleEnv\<lparr>GEMINI_API_KEY := None\<rparr>) sampleContext sampleQuestion emptyWorld =
     (Inl (HttpsError (js ''failed-precondition'')
        (js ''Gemini API key not configured. Please contact support.'')), emptyWorld)"
    .
  from t1 [THEN conjunct2, THEN conjunct2, THEN conjunct1, rule_format, OF c1]
  have c6: "err_code (HttpsError (js ''internal'')
        (js ''Failed to get AI response: Unauthenticated: No auth token provided'')) = js ''internal''"
    by simp
  have a0: "auth noAuthContext = None" by (simp add: noAuthContext_def)
  from a0 c1 c2 c3 c4 k c5 c6 show ?thesis
    by (intro conjI) assumption+
qed

text \<open>
  Claim C2 as stated fails: the call without identity and the call whose model request
  fails leave askGemini with the same code, \<open>internal\<close>; where the model request fails
  with the text of the authentication failure, the two errors are the same value.
\<close>

theorem unauthenticated_kind_is_internal:
  "fst (askGemini sampleEnv noAuthContext sampleQuestion emptyWorld) =
     Inl (HttpsError (js ''internal'')
        (js ''Failed to get AI response: Unauthenticated: No auth token provided'')) \<and>
   fst (askGemini (sampleEnv\<lparr>generateContent := \<lambda>p. Inl (Error (js ''fetch failed''))\<rparr>)
      sampleContext sampleQuestion emptyWorld) =
     Inl (HttpsError (js ''internal'') (js ''Failed to get AI response: fetch failed'')) \<and>
   fst (askGemini (sampleEnv\<lparr>generateContent :=
          \<lambda>p. Inl (Error (js ''Unauthenticated: No auth token provided''))\<rparr>)
      sampleContext sampleQuestion emptyWorld) =
     Inl (HttpsError (js ''internal'')
        (js ''Failed to get AI response: Unauthenticated: No auth token provided''))"
  by (simp add: run_defs sample_defs trim_sample_question)

section \<open>The ownership check of transcribeAudio\<close>

text \<open>
  Claim C3 at the path \<open>audio/otherUser/audio/u123/rec.webm\<close> for the caller \<open>u123\<close>:
  the path is not under \<open>audio/u123/\<close>, the check (which looks for \<open>audio/u123/\<close> anywhere
  in the path) lets it through, and the handler asks the blob store for the file.
\<close>

theorem transcribeAudio_accepts_foreign_path:
  "\<not> startsWith (js ''audio/otherUser/audio/u123/rec.webm'') (js ''audio/'' @ js ''u123'' @ js ''/'') \<and>
   transcribeAudio (sampleEnv\<lparr>fileExists := \<lambda>p. Inr False\<rparr>) sampleContext crossUserRequest
       emptyWorld =
     (Inl (HttpsError (js ''internal'') (js ''Failed to transcribe audio: Audio file not found'')),
      emptyWorld\<lparr>calls := [FileExists (js ''audio/otherUser/audio/u123/rec.webm'')]\<rparr>)"
  by (simp add: run_defs sample_defs)

text \<open>What the check does hold back: a path without \<open>audio/{uid}/\<close> in it.\<close>

lemma transcribeAudio_rejects_unrelated_path:
  assumes "validateAuth ctx = Inr userId"
    and "validateRequiredFields (numberToString env) d [js ''audioPath'', js ''language''] = Inr ()"
    and "validateAudioPath (getProp d (js ''audioPath'')) = Inr audioPath"
    and "validateLanguage (numberToString env) (getProp d (js ''language'')) = Inr language"
    and "\<not> includesStr audioPath (js ''audio/'' @ userId @ js ''/'')"
  shows "transcribeAudio env ctx d w =
     (Inl (HttpsError (js ''internal'')
        (js ''Failed to transcribe audio: Unauthorized: Cannot access audio file'')), w)"
  using assms by (simp add: transcribeAudio_def transcribeAudio_try_def throw_def js_append)

lemma own_path_passes_check:
  "startsWith audioPath (js ''audio/'' @ userId @ js ''/'') \<Longrightarrow>
   includesStr audioPath (js ''audio/'' @ userId @ js ''/'')"
  by (cases audioPath) (auto simp: js_def)

section \<open>The question that askGemini uses\<close>

text \<open>
  Claim C7 at the question of three spaces: it passes both validators (it is neither
  missing nor empty nor too long), is trimmed to the empty string, and the empty string
  is the question of the stored chat document.
\<close>

theorem blank_question_accepted:
  "validateRequiredFields (numberToString sampleEnv) blankQuestion
     [js ''question'', js ''farmProfile'', js ''language''] = Inr () \<and>
   validateTextLength (getProp blankQuestion (js ''question'')) 1000 = Inr [] \<and>
   map_option chat_question
     (chats (snd (askGemini sampleEnv sampleContext blankQuestion emptyWorld))
        (js ''u123'', js ''c1'')) = Some []"
  by (simp add: run_defs sample_defs trim_blank extract_sample_reply parse_sample_reply)

text \<open>What the validator does give: a trimmed text no longer than the bound.\<close>

lemma trim_shorter: "length (trim s) \<le> length s"
proof -
  have "length (trim s) \<le> length (dropWhile isWhiteSpace s)"
    using length_dropWhile_le [of isWhiteSpace "rev (dropWhile isWhiteSpace s)"]
    by (simp add: trim_def)
  also have "\<dots> \<le> length s" by (rule length_dropWhile_le)
  finally show ?thesis .
qed

lemma trim_no_outer_space:
  "trim s \<noteq> [] \<Longrightarrow> \<not> isWhiteSpace (hd (trim s)) \<and> \<not> isWhiteSpace (last (trim s))"
proof -
  assume n: "trim s \<noteq> []"
  define a where "a = dropWhile isWhiteSpace s"
  define b where "b = dropWhile isWhiteSpace (rev a)"
  have t: "trim s = rev b" by (simp add: trim_def a_def b_def)
  with n have bn: "b \<noteq> []" by simp
  then have "\<not> isWhiteSpace (hd b)" unfolding b_def by (rule hd_dropWhile)
  with bn t have l: "\<not> isWhiteSpace (last (trim s))" by (simp add: last_rev)
  from bn have an: "a \<noteq> []" by (auto simp: b_def)
  then have ha: "\<not> isWhiteSpace (hd a)" unfolding a_def by (rule hd_dropWhile)
  from bn have "last b = last (rev a)"
    unfolding b_def by (metis b_def last_appendR takeWhile_dropWhile_id)
  with an have "last b = hd a" by (simp add: last_rev)
  with ha bn t have "\<not> isWhiteSpace (hd (trim s))" by (simp add: hd_rev)
  with l show ?thesis by simp
qed

lemma validateTextLength_Inr:
  assumes "validateTextLength v n = Inr q"
  shows "\<exists>s. v = JStr s \<and> s \<noteq> [] \<and> length s \<le> n \<and> q = trim s \<and> length q \<le> n"
proof -
  from assms obtain s where "v = JStr s" "s \<noteq> []" "length s \<le> n" "q = trim s"
    by (cases v) (auto simp: validateTextLength_def split: if_splits)
  moreover from this trim_shorter [of s] have "length q \<le> n" by simp
  ultimately show ?thesis by blast
qed

lemma validateTextLength_1001:
  "validateTextLength (JStr (replicate 1001 0x78)) 1000 =
     Inl (Error (js ''Text too long. Maximum length: 1000 characters''))"
proof -
  have "showNat 1000 = js ''1000''" by (simp add: showNat.simps js_def)
  then show ?thesis by (simp add: validateTextLength_def js_append)
qed

lemma validateTextLength_1000:
  "validateTextLength (JStr (replicate 1000 0x78)) 1000 = Inr (replicate 1000 0x78)"
proof -
  have w: "\<not> isWhiteSpace 0x78" by (simp add: isWhiteSpace_def)
  have "dropWhile isWhiteSpace (replicate 1000 0x78) = replicate 1000 0x78"
    using w by (simp add: dropWhile_eq_self_iff)
  then have "trim (replicate 1000 0x78) = replicate 1000 0x78"
    using w by (simp add: trim_def dropWhile_eq_self_iff)
  then show ?thesis by (simp add: validateTextLength_def)
qed

section \<open>askGemini: what is returned and what is stored\<close>

text \<open>
  What askGemini does with the reply to the prompt it has sent. \<open>answer\<close> is the parsed
  answer, truthy (the code does not look at its type); \<open>confidence\<close> is the parsed value
  when that is one of High, Medium, Low and Medium otherwise; \<open>sources\<close> is the parsed
  value when that is an array and \<open>["Gemini AI"]\<close> otherwise; \<open>suggestions\<close> is the parsed
  value when that is an array and the empty array otherwise (the code does not look at
  the elements).
\<close>

lemma askGemini_response_fields:
  assumes "askGemini env ctx d w = (Inr res, w')"
  shows "\<exists>userId question language prompt t.
           validateAuth ctx = Inr userId \<and>
           validateTextLength (getProp d (js ''question'')) 1000 = Inr question \<and>
           validateLanguage (numberToString env) (getProp d (js ''language'')) = Inr language \<and>
           buildAgriculturalPrompt (numberToString env) (getProp d (js ''farmProfile''))
             language question = Inr prompt \<and>
           calls w' = calls w @ [GeminiGenerate prompt, ChatSet userId (newChatId env)] \<and>
           generateContent env prompt = Inr t \<and>
           answer res = getProp (parseReply (jsonParse env) t) (js ''answer'') \<and>
           truthy (answer res) \<and>
           confidence res =
             (if getProp (parseReply (jsonParse env) t) (js ''confidence'')
                   \<in> {JStr (js ''High''), JStr (js ''Medium''), JStr (js ''Low'')}
              then getProp (parseReply (jsonParse env) t) (js ''confidence'')
              else JStr (js ''Medium'')) \<and>
           confidence res \<in> {JStr (js ''High''), JStr (js ''Medium''), JStr (js ''Low'')} \<and>
           sources res =
             (if isArray (getProp (parseReply (jsonParse env) t) (js ''sources''))
              then getProp (parseReply (jsonParse env) t) (js ''sources'')
              else JArr [JStr (js ''Gemini AI'')]) \<and>
           isArray (sources res) \<and>
           suggestions res =
             (if isArray (getProp (parseReply (jsonParse env) t) (js ''suggestions''))
              then getProp (parseReply (jsonParse env) t) (js ''suggestions'')
              else JArr []) \<and>
           isArray (suggestions res)"
proof -
  from assms have "askGemini_try env ctx d w = (Inr res, w')"
    by (simp add: askGemini_Inr_iff)
  from askGemini_try_Inr [OF this] obtain userId question language prompt t r where
    a: "validateAuth ctx = Inr userId" and
    q: "validateTextLength (getProp d (js ''question'')) 1000 = Inr question" and
    l: "validateLanguage (numberToString env) (getProp d (js ''language'')) = Inr language" and
    b: "buildAgriculturalPrompt (numberToString env) (getProp d (js ''farmProfile''))
             language question = Inr prompt" and
    g: "generateContent env prompt = Inr t" and
    p: "parseResponse (jsonParse env) t = Inr r" and
    r: "res = aiResponse.extend r \<lparr> chatId = newChatId env \<rparr>" and
    w: "w' = w\<lparr>calls := calls w @ [GeminiGenerate prompt, ChatSet userId (newChatId env)],
                  chats := (chats w)((userId, newChatId env) \<mapsto>
                    chatRecord question r language (getProp d (js ''farmProfile'')))\<rparr>"
    by blast
  from w have c: "calls w' = calls w @ [GeminiGenerate prompt, ChatSet userId (newChatId env)]"
    by simp
  define v where "v = getProp (parseReply (jsonParse env) t) (js ''confidence'')"
  have conf: "stringsInclude validConfidenceLevels v \<longleftrightarrow>
      v \<in> {JStr (js ''High''), JStr (js ''Medium''), JStr (js ''Low'')}"
    by (cases v) (auto simp: validConfidenceLevels_def)
  from p r conf have "answer res = getProp (parseReply (jsonParse env) t) (js ''answer'') \<and>
           truthy (answer res) \<and>
           confidence res =
             (if getProp (parseReply (jsonParse env) t) (js ''confidence'')
                   \<in> {JStr (js ''High''), JStr (js ''Medium''), JStr (js ''Low'')}
              then getProp (parseReply (jsonParse env) t) (js ''confidence'')
              else JStr (js ''Medium'')) \<and>
           confidence res \<in> {JStr (js ''High''), JStr (js ''Medium''), JStr (js ''Low'')} \<and>
           sources res =
             (if isArray (getProp (parseReply (jsonParse env) t) (js ''sources''))
              then getProp (parseReply (jsonParse env) t) (js ''sources'')
              else JArr [JStr (js ''Gemini AI'')]) \<and>
           isArray (sources res) \<and>
           suggestions res =
             (if isArray (getProp (parseReply (jsonParse env) t) (js ''suggestions''))
              then getProp (parseReply (jsonParse env) t) (js ''suggestions'')
              else JArr []) \<and>
           isArray (suggestions res)"
    unfolding v_def
    by (auto simp: parseResponse_def normalizeResponse_def aiResponse.defs split: if_splits)
  with a q l b c g show ?thesis by blast
qed

text \<open>
  The sample reply \<open>{"answer":"ok","confidence":"VeryHigh"}\<close>: the confidence becomes
  Medium, the missing lists take their defaults.
\<close>

lemma askGemini_sample_response:
  "fst (askGemini sampleEnv sampleContext sampleQuestion emptyWorld) =
     Inr \<lparr> answer = JStr (js ''ok''), confidence = JStr (js ''Medium''),
            sources = JArr [JStr (js ''Gemini AI'')], suggestions = JArr [],
            chatId = js ''c1'' \<rparr>"
  by (simp add: run_defs sample_defs trim_sample_question extract_sample_reply parse_sample_reply
      aiResponse.defs)

lemma extract_number_answer:
  "extractJson (js ''{\"answer\":5,\"sources\":[1]}'') = Some (js ''{\"answer\":5,\"sources\":[1]}'')"
  by (simp add: extractJson_def js_def)

lemma parse_number_answer:
  "JSON_parse_object (js ''{\"answer\":5,\"sources\":[1]}'') =
     Some [(js ''answer'', JNum 5), (js ''sources'', JArr [JNum 1])]"
  by (simp add: json_defs)

text \<open>
  Claim C1 at the reply \<open>{"answer":5,"sources":[1]}\<close> to the sample question of an
  authenticated caller: the handler, documented as returning \<open>answer: string\<close>, returns
  the number 5 as the answer. The check of the answer is \<open>!aiResponse.answer\<close>, which
  the number 5 passes; the other three fields are checked for their shape.
\<close>

theorem askGemini_answer_not_string:
  "fst (askGemini (sampleEnv\<lparr>generateContent := \<lambda>p. Inr (js ''{\"answer\":5,\"sources\":[1]}'')\<rparr>)
          sampleContext sampleQuestion emptyWorld) =
     Inr \<lparr> answer = JNum 5, confidence = JStr (js ''Medium''),
           sources = JArr [JNum 1], suggestions = JArr [],
           chatId = js ''c1'' \<rparr> \<and>
   \<not> isString (JNum 5)"
  by (simp add: run_defs sample_defs trim_sample_question extract_number_answer
      parse_number_answer aiResponse.defs)

text \<open>The write that fails after the model has answered: the request fails with its error.\<close>

lemma askGemini_write_failure:
  assumes "validateAuth ctx = Inr userId"
    and "validateRequiredFields (numberToString env) d
           [js ''question'', js ''farmProfile'', js ''language''] = Inr ()"
    and "validateTextLength (getProp d (js ''question'')) 1000 = Inr question"
    and "validateLanguage (numberToString env) (getProp d (js ''language'')) = Inr language"
    and "truthy (getProp d (js ''farmProfile''))"
    and "typeof_object (getProp d (js ''farmProfile''))"
    and "\<not> apiKeyMissing env"
    and "buildAgriculturalPrompt (numberToString env) (getProp d (js ''farmProfile''))
           language question = Inr systemPrompt"
    and "generateContent env systemPrompt = Inr responseText"
    and "parseResponse (jsonParse env) responseText = Inr r"
    and "chatSet env userId (newChatId env)
           (chatRecord question r language (getProp d (js ''farmProfile''))) = Some e"
  shows "askGemini env ctx d w =
     (Inl (askGemini_catch e),
      w\<lparr>calls := calls w @ [GeminiGenerate systemPrompt, ChatSet userId (newChatId env)]\<rparr>)"
  using assms
  by (simp add: askGemini_def askGemini_try_def callExt_def called_def writeChat_def)

text \<open>
  Claim C6, as the code has it. A call that returns has written one chat document, under
  the caller's user id and the generated id, which is the \<open>chatId\<close> returned, and the
  document holds the answer, confidence, sources and suggestions returned. A call that
  fails leaves the stored chats as they were; when the write was sent, the error is that
  of the write: an \<open>internal\<close> error carrying its message, unless the message contains
  \<open>API key\<close>, in which case it is the \<open>failed-precondition\<close> error with its fixed
  text.
\<close>

theorem askGemini_persistence:
  assumes "askGemini env ctx d w = (res, w')"
  shows "(\<forall>r. res = Inr r \<longrightarrow>
            (\<exists>userId doc p.
               validateAuth ctx = Inr userId \<and>
               chatSet env userId (newChatId env) doc = None \<and>
               chatId r = newChatId env \<and>
               chats w' = (chats w)((userId, chatId r) \<mapsto> doc) \<and>
               calls w' = calls w @ [GeminiGenerate p, ChatSet userId (chatId r)] \<and>
               chat_answer doc = answer r \<and> chat_confidence doc = confidence r \<and>
               chat_sources doc = sources r \<and> chat_suggestions doc = suggestions r)) \<and>
         (\<forall>err. res = Inl err \<longrightarrow>
            chats w' = chats w \<and>
            (\<forall>u i. ChatSet u i \<in> set (drop (length (calls w)) (calls w')) \<longrightarrow>
               (\<exists>doc e. chatSet env u i doc = Some e \<and>
                  err = (if includesStr (message e) (js ''API key'')
                         then HttpsError (js ''failed-precondition'')
                                (js ''Gemini API key not configured. Please contact support.'')
                         else HttpsError (js ''internal'')
                                (js ''Failed to get AI response: '' @ message e)))))"
proof (intro conjI allI impI)
  fix r assume "res = Inr r"
  with assms have "askGemini_try env ctx d w = (Inr r, w')"
    by (simp add: askGemini_Inr_iff)
  from askGemini_try_Inr [OF this] obtain userId question language systemPrompt responseText r0
    where a: "validateAuth ctx = Inr userId"
      and s: "chatSet env userId (newChatId env)
                (chatRecord question r0 language (getProp d (js ''farmProfile''))) = None"
      and r: "r = aiResponse.extend r0 \<lparr> chatId = newChatId env \<rparr>"
      and w: "w' = w\<lparr>calls := calls w @ [GeminiGenerate systemPrompt, ChatSet userId (newChatId env)],
                  chats := (chats w)((userId, newChatId env) \<mapsto>
                    chatRecord question r0 language (getProp d (js ''farmProfile'')))\<rparr>"
    by blast
  define doc where "doc = chatRecord question r0 language (getProp d (js ''farmProfile''))"
  from r have i: "chatId r = newChatId env" by (simp add: aiResponse.defs)
  from w i have c: "chats w' = (chats w)((userId, chatId r) \<mapsto> doc)"
    and l: "calls w' = calls w @ [GeminiGenerate systemPrompt, ChatSet userId (chatId r)]"
    by (simp_all add: doc_def)
  from r have f: "chat_answer doc = answer r \<and> chat_confidence doc = confidence r \<and>
      chat_sources doc = sources r \<and> chat_suggestions doc = suggestions r"
    by (simp add: doc_def chatRecord_def aiResponse.defs)
  from a s i c l f
  show "\<exists>userId doc p.
               validateAuth ctx = Inr userId \<and>
               chatSet env userId (newChatId env) doc = None \<and>
               chatId r = newChatId env \<and>
               chats w' = (chats w)((userId, chatId r) \<mapsto> doc) \<and>
               calls w' = calls w @ [GeminiGenerate p, ChatSet userId (chatId r)] \<and>
               chat_answer doc = answer r \<and> chat_confidence doc = confidence r \<and>
               chat_sources doc = sources r \<and> chat_suggestions doc = suggestions r"
    unfolding doc_def [symmetric] by blast
next
  fix err assume "res = Inl err"
  with assms obtain e where t: "askGemini_try env ctx d w = (Inl e, w')"
    and c: "err = askGemini_catch e"
    by (auto simp: askGemini_Inl_iff)
  from askGemini_try_Inl [OF t] show "chats w' = chats w" by simp
next
  fix err u i
  assume "res = Inl err" and sent: "ChatSet u i \<in> set (drop (length (calls w)) (calls w'))"
  with assms obtain e where t: "askGemini_try env ctx d w = (Inl e, w')"
    and c: "err = askGemini_catch e"
    by (auto simp: askGemini_Inl_iff)
  from askGemini_try_Inl [OF t] sent
  have "\<exists>doc. chatSet env u i doc = Some e" by auto
  with c show "\<exists>doc e. chatSet env u i doc = Some e \<and>
                  err = (if includesStr (message e) (js ''API key'')
                         then HttpsError (js ''failed-precondition'')
                                (js ''Gemini API key not configured. Please contact support.'')
                         else HttpsError (js ''internal'')
                                (js ''Failed to get AI response: '' @ message e))"
    by (auto simp: askGemini_catch_def)
qed

text \<open>
  Claim C6 as stated fails for a write that fails with the message \<open>API key expired\<close>:
  the error that leaves askGemini does not carry that message.
\<close>

theorem write_failure_message_replaced:
  "fst (askGemini (sampleEnv\<lparr>chatSet := \<lambda>u i r. Some (Error (js ''API key expired''))\<rparr>)
          sampleContext sampleQuestion emptyWorld) =
     Inl (HttpsError (js ''failed-precondition'')
            (js ''Gemini API key not configured. Please contact support.'')) \<and>
   \<not> includesStr (js ''Gemini API key not configured. Please contact support.'')
        (js ''API key expired'')"
  by (simp add: run_defs sample_defs extract_sample_reply parse_sample_reply trim_sample_question)

text \<open>A write that fails with \<open>deadline exceeded\<close>, after the model has answered.\<close>

theorem askGemini_persistence_witness:
  "askGemini (sampleEnv\<lparr>chatSet := \<lambda>u i r. Some (Error (js ''deadline exceeded''))\<rparr>)
      sampleContext sampleQuestion emptyWorld =
     (Inl (HttpsError (js ''internal'') (js ''Failed to get AI response: deadline exceeded'')),
      emptyWorld\<lparr>calls :=
        [GeminiGenerate
           (promptTemplate (js ''Hindi'') (js ''wheat'') notSpecified notSpecified notSpecified
              notSpecified notSpecified notSpecified notSpecified (js ''How do I treat leaf rust?'')),
         ChatSet (js ''u123'') (js ''c1'')]\<rparr>) \<and>
   chats (snd (askGemini (sampleEnv\<lparr>chatSet := \<lambda>u i r. Some (Error (js ''deadline exceeded''))\<rparr>)
      sampleContext sampleQuestion emptyWorld)) = chats emptyWorld \<and>
   fst (askGemini sampleEnv sampleContext sampleQuestion emptyWorld) =
     Inr \<lparr> answer = JStr (js ''ok''), confidence = JStr (js ''Medium''),
           sources = JArr [JStr (js ''Gemini AI'')], suggestions = JArr [],
           chatId = js ''c1'' \<rparr> \<and>
   map_option chat_answer
     (chats (snd (askGemini sampleEnv sampleContext sampleQuestion emptyWorld))
        (js ''u123'', js ''c1'')) = Some (JStr (js ''ok'')) \<and>
   dom (chats (snd (askGemini sampleEnv sampleContext sampleQuestion emptyWorld))) =
     {(js ''u123'', js ''c1'')}"
  using askGemini_persistence
      [of "sampleEnv\<lparr>chatSet := \<lambda>u i r. Some (Error (js ''deadline exceeded''))\<rparr>"
      sampleContext sampleQuestion emptyWorld
      "fst (askGemini (sampleEnv\<lparr>chatSet := \<lambda>u i r. Some (Error (js ''deadline exceeded''))\<rparr>)
      sampleContext sampleQuestion emptyWorld)"
      "snd (askGemini (sampleEnv\<lparr>chatSet := \<lambda>u i r. Some (Error (js ''deadline exceeded''))\<rparr>)
      sampleContext sampleQuestion emptyWorld)"]
    askGemini_persistence
      [of sampleEnv sampleContext sampleQuestion emptyWorld
      "fst (askGemini sampleEnv sampleContext sampleQuestion emptyWorld)"
      "snd (askGemini sampleEnv sampleContext sampleQuestion emptyWorld)"]
  by (simp add: run_defs sample_defs extract_sample_reply parse_sample_reply trim_sample_question
      aiResponse.defs)

section \<open>The confidence of a transcription\<close>

text \<open>A successful run of transcribeAudio, step by step.\<close>

lemma transcribeAudio_try_Inr:
  assumes "transcribeAudio_try env ctx d w = (Inr t, w')"
  shows "\<exists>userId audioPath language url response.
           validateAuth ctx = Inr userId \<and>
           validateAudioPath (getProp d (js ''audioPath'')) = Inr audioPath \<and>
           validateLanguage (numberToString env) (getProp d (js ''language'')) = Inr language \<and>
           includesStr audioPath (js ''audio/'' @ userId @ js ''/'') \<and>
           fileExists env audioPath = Inr True \<and>
           getSignedUrl env audioPath (dateNow env 0 + 5 * 60 * 1000) = Inr url \<and>
           recognize env (recognizeRequest env audioPath language) = Inr response \<and>
           t = transcriptionOf env response \<and>
           w' = w\<lparr>calls := calls w @
                  [FileExists audioPath, GetSignedUrl audioPath (dateNow env 0 + 5 * 60 * 1000),
                   Recognize (recognizeRequest env audioPath language)]\<rparr>"
  using assms unfolding transcribeAudio_try_def
  by (auto simp: andThen_Inr_iff callExt_Inr_iff called_def split: if_splits)

text \<open>Once the recogniser has answered, the handler returns: no later step raises.\<close>

lemma transcribeAudio_returns:
  assumes "validateAuth ctx = Inr userId"
    and "validateRequiredFields (numberToString env) d [js ''audioPath'', js ''language''] = Inr ()"
    and "validateAudioPath (getProp d (js ''audioPath'')) = Inr audioPath"
    and "validateLanguage (numberToString env) (getProp d (js ''language'')) = Inr language"
    and "includesStr audioPath (js ''audio/'' @ userId @ js ''/'')"
    and "fileExists env audioPath = Inr True"
    and "getSignedUrl env audioPath (dateNow env 0 + 5 * 60 * 1000) = Inr url"
    and "recognize env (recognizeRequest env audioPath language) = Inr response"
  shows "transcribeAudio env ctx d w =
     (Inr (transcriptionOf env response),
      w\<lparr>calls := calls w @
         [FileExists audioPath, GetSignedUrl audioPath (dateNow env 0 + 5 * 60 * 1000),
          Recognize (recognizeRequest env audioPath language)]\<rparr>)"
  using assms
  by (simp add: transcribeAudio_def transcribeAudio_try_def callExt_def called_def return_def)

lemma transcriptionOf_no_results:
  "results response = None \<or> results response = Some [] \<Longrightarrow>
   transcriptionOf env response =
     \<lparr> tr_transcript = [], tr_confidence = 0,
       tr_message = Some (js ''No speech detected in audio'') \<rparr>"
  by (auto simp: transcriptionOf_def)

lemma avgConfidence_positive_scores:
  "avgConfidence env rs =
     (if filter (\<lambda>s. 0 < s) (map segmentScore rs) = [] then 0
      else numDiv env
             (foldl (\<lambda>sum score. numAdd env sum score) 0
                (filter (\<lambda>s. 0 < s) (map segmentScore rs)))
             (of_nat (length (filter (\<lambda>s. 0 < s) (map segmentScore rs)))))"
proof -
  define ps where "ps = filter (\<lambda>s. 0 < s) (map segmentScore rs)"
  have "avgConfidence env rs =
      (if length ps > 0
       then numDiv env (foldl (\<lambda>sum score. numAdd env sum score) 0 ps) (of_nat (length ps))
       else 0)"
    unfolding ps_def avgConfidence_def confidenceScores_def ..
  also have "\<dots> = (if ps = [] then 0
      else numDiv env (foldl (\<lambda>sum score. numAdd env sum score) 0 ps) (of_nat (length ps)))"
    by (cases ps) simp_all
  finally show ?thesis unfolding ps_def .
qed

lemma transcriptionOf_confidence:
  assumes "results response = Some rs" and "rs \<noteq> []"
  shows "tr_confidence (transcriptionOf env response) =
     numDiv env (Math_round (numMul env (avgConfidence env rs) 100)) 100"
  using assms by (simp add: transcriptionOf_def)

text \<open>
  Bounds, for a rounding that is monotone and leaves the natural numbers up to \<open>2^53\<close>
  as they are, as the rounding to the nearest double does.
\<close>

lemma foldl_numAdd_bounds:
  assumes mono: "\<forall>x y. x \<le> y \<longrightarrow> roundDouble env x \<le> roundDouble env y"
    and exact: "\<forall>n \<le> 2 ^ 53. roundDouble env (of_nat n) = of_nat n"
  shows "\<forall>x \<in> set xs. 0 \<le> x \<and> x \<le> 1 \<Longrightarrow> 0 \<le> a \<Longrightarrow> a \<le> of_nat k \<Longrightarrow>
         k + length xs \<le> 2 ^ 53 \<Longrightarrow>
         0 \<le> foldl (\<lambda>sum score. numAdd env sum score) a xs \<and>
         foldl (\<lambda>sum score. numAdd env sum score) a xs \<le> of_nat (k + length xs)"
proof (induction xs arbitrary: a k)
  case Nil
  then show ?case by simp
next
  case (Cons x xs)
  have "(0 :: nat) \<le> 2 ^ 53" by simp
  with exact have "roundDouble env (of_nat 0) = of_nat 0" by blast
  then have z: "roundDouble env 0 = 0" by simp
  from Cons.prems have x: "0 \<le> x" "x \<le> 1" by simp_all
  from Cons.prems have k1: "Suc k \<le> 2 ^ 53" by simp
  from x Cons.prems(2) have "0 \<le> a + x" by simp
  with mono have "roundDouble env 0 \<le> roundDouble env (a + x)" by blast
  with z have lo: "0 \<le> numAdd env a x" by (simp add: numAdd_def)
  from x Cons.prems(3) have "a + x \<le> of_nat (Suc k)" by simp
  with mono have "roundDouble env (a + x) \<le> roundDouble env (of_nat (Suc k))" by blast
  moreover from exact k1 have "roundDouble env (of_nat (Suc k)) = of_nat (Suc k)" by blast
  ultimately have hi: "numAdd env a x \<le> of_nat (Suc k)" by (simp add: numAdd_def)
  from Cons.prems have rest: "\<forall>y \<in> set xs. 0 \<le> y \<and> y \<le> 1" and
    len: "Suc k + length xs \<le> 2 ^ 53" by simp_all
  from Cons.IH [OF rest lo hi len] show ?case by simp
qed

lemma rounded_unit_interval:
  assumes mono: "\<forall>x y. x \<le> y \<longrightarrow> roundDouble env x \<le> roundDouble env y"
    and exact: "\<forall>n \<le> 2 ^ 53. roundDouble env (of_nat n) = of_nat n"
    and "0 \<le> x" and "x \<le> of_nat n" and "n \<le> 2 ^ 53"
  shows "0 \<le> roundDouble env x \<and> roundDouble env x \<le> of_nat n"
proof -
  have "(0 :: nat) \<le> 2 ^ 53" by simp
  with exact have "roundDouble env (of_nat 0) = of_nat 0" by blast
  then have z: "roundDouble env 0 = 0" by simp
  from exact assms(5) have e: "roundDouble env (of_nat n) = of_nat n" by blast
  from mono assms(3) have "roundDouble env 0 \<le> roundDouble env x" by blast
  moreover from mono assms(4) have "roundDouble env x \<le> roundDouble env (of_nat n)" by blast
  ultimately show ?thesis using z e by simp
qed

lemma confidence_bounds:
  assumes mono: "\<forall>x y. x \<le> y \<longrightarrow> roundDouble env x \<le> roundDouble env y"
    and exact: "\<forall>n \<le> 2 ^ 53. roundDouble env (of_nat n) = of_nat n"
    and scores: "\<forall>r \<in> set rs. segmentScore r \<le> 1"
    and len: "length rs \<le> 2 ^ 53"
  shows "0 \<le> numDiv env (Math_round (numMul env (avgConfidence env rs) 100)) 100 \<and>
         numDiv env (Math_round (numMul env (avgConfidence env rs) 100)) 100 \<le> 1"
proof -
  define ps where "ps = confidenceScores rs"
  have pos: "\<forall>x \<in> set ps. 0 \<le> x \<and> x \<le> 1"
    using scores by (auto simp: ps_def confidenceScores_def)
  have "length ps \<le> length rs"
    by (simp add: ps_def confidenceScores_def)
  with len have pl: "0 + length ps \<le> 2 ^ 53" by simp
  have s: "0 \<le> foldl (\<lambda>sum score. numAdd env sum score) 0 ps \<and>
           foldl (\<lambda>sum score. numAdd env sum score) 0 ps \<le> of_nat (0 + length ps)"
    by (rule foldl_numAdd_bounds [OF mono exact pos _ _ pl]) simp_all
  have one: "(1 :: nat) \<le> 2 ^ 53" by simp
  have hundred: "(100 :: nat) \<le> 2 ^ 53" by simp
  have avg: "0 \<le> avgConfidence env rs \<and> avgConfidence env rs \<le> 1"
  proof (cases "ps = []")
    case True
    then show ?thesis by (simp add: avgConfidence_def ps_def)
  next
    case False
    then have n: "0 < (of_nat (length ps) :: rat)" by simp
    let ?q = "foldl (\<lambda>sum score. numAdd env sum score) 0 ps / of_nat (length ps)"
    from s n have "0 \<le> ?q" by simp
    moreover from s n have "?q \<le> of_nat 1" by (simp add: divide_le_eq)
    ultimately have "0 \<le> roundDouble env ?q \<and> roundDouble env ?q \<le> of_nat 1"
      using rounded_unit_interval [OF mono exact _ _ one] by blast
    with False show ?thesis by (simp add: avgConfidence_def ps_def numDiv_def)
  qed
  then have "0 \<le> avgConfidence env rs * 100" "avgConfidence env rs * 100 \<le> of_nat 100"
    by simp_all
  then have m: "0 \<le> numMul env (avgConfidence env rs) 100 \<and>
      numMul env (avgConfidence env rs) 100 \<le> 100"
    using rounded_unit_interval [OF mono exact _ _ hundred] by (simp add: numMul_def)
  define v where "v = numMul env (avgConfidence env rs) 100"
  from m have "0 \<le> v + 1 / 2" "v + 1 / 2 < 101" by (simp_all add: v_def)
  then have "0 \<le> \<lfloor>v + 1 / 2\<rfloor>" "\<lfloor>v + 1 / 2\<rfloor> < 101" by (simp_all add: floor_less_iff)
  then have "0 \<le> \<lfloor>v + 1 / 2\<rfloor>" "\<lfloor>v + 1 / 2\<rfloor> \<le> 100" by simp_all
  then have "0 \<le> (of_int \<lfloor>v + 1 / 2\<rfloor> :: rat)" "(of_int \<lfloor>v + 1 / 2\<rfloor> :: rat) \<le> 100"
    by (simp, metis of_int_le_iff of_int_numeral)
  then have "0 \<le> Math_round v / 100" "Math_round v / 100 \<le> of_nat 1"
    by (simp_all add: Math_round_def)
  then have "0 \<le> roundDouble env (Math_round v / 100) \<and>
      roundDouble env (Math_round v / 100) \<le> of_nat 1"
    using rounded_unit_interval [OF mono exact _ _ one] by blast
  then show ?thesis by (simp add: numDiv_def v_def)
qed

text \<open>
  Claim C8, as the code has it. Once the request has passed the checks and the recogniser
  has answered, transcribeAudio returns: it does not fail. For a response without
  results it returns the transcript \<open>""\<close> and the confidence 0. For a response with
  results the confidence is \<open>Math.round(avg * 100) / 100\<close> in the arithmetic of doubles,
  where \<open>avg\<close> is the sum of the scores that are greater than 0 (added in order, from
  0) divided by their number, and 0 when no score is greater than 0; the score of a
  segment is the confidence of its first alternative (0 when there is none), so a
  segment with the score 0 is left out of the mean. Where the rounding of doubles is
  monotone and leaves the natural numbers up to \<open>2^53\<close> as they are, and no score
  exceeds 1, the confidence lies between 0 and 1.
\<close>

theorem transcribeAudio_confidence:
  assumes "validateAuth ctx = Inr userId"
    and "validateRequiredFields (numberToString env) d [js ''audioPath'', js ''language''] = Inr ()"
    and "validateAudioPath (getProp d (js ''audioPath'')) = Inr audioPath"
    and "validateLanguage (numberToString env) (getProp d (js ''language'')) = Inr language"
    and "includesStr audioPath (js ''audio/'' @ userId @ js ''/'')"
    and "fileExists env audioPath = Inr True"
    and "getSignedUrl env audioPath (dateNow env 0 + 5 * 60 * 1000) = Inr url"
    and "recognize env (recognizeRequest env audioPath language) = Inr response"
  shows "transcribeAudio env ctx d w =
           (Inr (transcriptionOf env response),
            w\<lparr>calls := calls w @
               [FileExists audioPath, GetSignedUrl audioPath (dateNow env 0 + 5 * 60 * 1000),
                Recognize (recognizeRequest env audioPath language)]\<rparr>) \<and>
         (results response = None \<or> results response = Some [] \<longrightarrow>
            tr_transcript (transcriptionOf env response) = [] \<and>
            tr_confidence (transcriptionOf env response) = 0) \<and>
         (\<forall>rs. results response = Some rs \<and> rs \<noteq> [] \<longrightarrow>
            tr_confidence (transcriptionOf env response) =
              numDiv env (Math_round (numMul env
                (if filter (\<lambda>s. 0 < s) (map segmentScore rs) = [] then 0
                 else numDiv env
                        (foldl (\<lambda>sum score. numAdd env sum score) 0
                           (filter (\<lambda>s. 0 < s) (map segmentScore rs)))
                        (of_nat (length (filter (\<lambda>s. 0 < s) (map segmentScore rs))))) 100)) 100 \<and>
            ((\<forall>x y. x \<le> y \<longrightarrow> roundDouble env x \<le> roundDouble env y) \<and>
             (\<forall>n \<le> 2 ^ 53. roundDouble env (of_nat n) = of_nat n) \<and>
             (\<forall>r \<in> set rs. segmentScore r \<le> 1) \<and> length rs \<le> 2 ^ 53 \<longrightarrow>
             0 \<le> tr_confidence (transcriptionOf env response) \<and>
             tr_confidence (transcriptionOf env response) \<le> 1))"
proof (intro conjI allI impI)
  show "transcribeAudio env ctx d w =
           (Inr (transcriptionOf env response),
            w\<lparr>calls := calls w @
               [FileExists audioPath, GetSignedUrl audioPath (dateNow env 0 + 5 * 60 * 1000),
                Recognize (recognizeRequest env audioPath language)]\<rparr>)"
    using assms by (rule transcribeAudio_returns)
next
  assume "results response = None \<or> results response = Some []"
  then show "tr_transcript (transcriptionOf env response) = []"
    by (simp add: transcriptionOf_no_results)
next
  assume "results response = None \<or> results response = Some []"
  then show "tr_confidence (transcriptionOf env response) = 0"
    by (simp add: transcriptionOf_no_results)
next
  fix rs assume "results response = Some rs \<and> rs \<noteq> []"
  then have "tr_confidence (transcriptionOf env response) =
      numDiv env (Math_round (numMul env (avgConfidence env rs) 100)) 100"
    by (simp add: transcriptionOf_confidence)
  then show "tr_confidence (transcriptionOf env response) =
              numDiv env (Math_round (numMul env
                (if filter (\<lambda>s. 0 < s) (map segmentScore rs) = [] then 0
                 else numDiv env
                        (foldl (\<lambda>sum score. numAdd env sum score) 0
                           (filter (\<lambda>s. 0 < s) (map segmentScore rs)))
                        (of_nat (length (filter (\<lambda>s. 0 < s) (map segmentScore rs))))) 100)) 100"
    by (simp only: avgConfidence_positive_scores)
next
  fix rs
  assume r: "results response = Some rs \<and> rs \<noteq> []"
    and h: "(\<forall>x y. x \<le> y \<longrightarrow> roundDouble env x \<le> roundDouble env y) \<and>
             (\<forall>n \<le> 2 ^ 53. roundDouble env (of_nat n) = of_nat n) \<and>
             (\<forall>r \<in> set rs. segmentScore r \<le> 1) \<and> length rs \<le> 2 ^ 53"
  from r have c: "tr_confidence (transcriptionOf env response) =
      numDiv env (Math_round (numMul env (avgConfidence env rs) 100)) 100"
    by (simp add: transcriptionOf_confidence)
  from h have "0 \<le> numDiv env (Math_round (numMul env (avgConfidence env rs) 100)) 100 \<and>
         numDiv env (Math_round (numMul env (avgConfidence env rs) 100)) 100 \<le> 1"
    by (intro confidence_bounds) blast+
  with c show "0 \<le> tr_confidence (transcriptionOf env response)"
    and "tr_confidence (transcriptionOf env response) \<le> 1" by simp_all
qed

text \<open>The sample request for the caller's own recording passes every step.\<close>

lemma sample_audio_request:
  "validateAuth sampleContext = Inr (js ''u123'')"
  "validateRequiredFields (numberToString sampleEnv) ownAudioRequest
     [js ''audioPath'', js ''language''] = Inr ()"
  "validateAudioPath (getProp ownAudioRequest (js ''audioPath'')) = Inr (js ''audio/u123/rec.webm'')"
  "validateLanguage (numberToString sampleEnv) (getProp ownAudioRequest (js ''language'')) =
     Inr (js ''ta'')"
  "includesStr (js ''audio/u123/rec.webm'') (js ''audio/'' @ js ''u123'' @ js ''/'')"
  "fileExists sampleEnv (js ''audio/u123/rec.webm'') = Inr True"
  "getSignedUrl sampleEnv (js ''audio/u123/rec.webm'') (dateNow sampleEnv 0 + 5 * 60 * 1000) =
     Inr (js ''https://signed'')"
  "recognize sampleEnv (recognizeRequest sampleEnv (js ''audio/u123/rec.webm'') (js ''ta'')) =
     Inr \<lparr> results = Some sampleResults \<rparr>"
  by (simp_all add: validateAuth_def sampleContext_def validateRequiredFields_def
      ownAudioRequest_def validateAudioPath_def validateLanguage_def supportedLanguages_def
      js_append sampleEnv_def)

lemma trim_sample_transcript: "trim (js ''namaste kisan'') = js ''namaste kisan''"
  by (simp add: js_def trim_def isWhiteSpace_def)

lemma sample_transcription:
  "transcriptionOf sampleEnv \<lparr> results = Some sampleResults \<rparr> =
     \<lparr> tr_transcript = js ''namaste kisan'', tr_confidence = 1, tr_message = None \<rparr>"
  by (simp add: transcriptionOf_def sampleResults_def transcriptOf_def firstAlternative_def
      avgConfidence_def confidenceScores_def segmentScore_def Math_round_def js_append
      trim_sample_transcript numAdd_def numMul_def numDiv_def sampleEnv_def floor_eq_iff)

text \<open>
  Claim C8 as stated fails for two segments with the scores 1 and 0: the handler
  returns the confidence 1, the mean of the two scores is 0.5. (Every number of this
  run is an integer, on which the arithmetic of doubles is exact.)
\<close>

theorem confidence_not_mean_of_all_segments:
  "fst (transcribeAudio sampleEnv sampleContext ownAudioRequest emptyWorld) =
     Inr \<lparr> tr_transcript = js ''namaste kisan'', tr_confidence = 1, tr_message = None \<rparr> \<and>
   map segmentScore sampleResults = [1, 0] \<and>
   roundTo2 (meanOfScores (map segmentScore sampleResults)) = 1 / 2"
proof -
  have "fst (transcribeAudio sampleEnv sampleContext ownAudioRequest emptyWorld) =
      Inr (transcriptionOf sampleEnv \<lparr> results = Some sampleResults \<rparr>)"
    by (simp add: transcribeAudio_returns [OF sample_audio_request, of emptyWorld])
  moreover have m: "map segmentScore sampleResults = [1, 0]"
    by (simp add: sampleResults_def segmentScore_def firstAlternative_def)
  moreover have "roundTo2 (meanOfScores (map segmentScore sampleResults)) = 1 / 2"
    unfolding m by (simp add: meanOfScores_def roundTo2_def floor_eq_iff)
  ultimately show ?thesis by (simp only: sample_transcription simp_thms)
qed

text \<open>
  The sample request, answered with the two sample segments, and answered without
  results.
\<close>

theorem transcribeAudio_confidence_witness:
  "validateAuth sampleContext = Inr (js ''u123'') \<and>
   validateAudioPath (getProp ownAudioRequest (js ''audioPath'')) = Inr (js ''audio/u123/rec.webm'') \<and>
   fileExists sampleEnv (js ''audio/u123/rec.webm'') = Inr True \<and>
   recognize sampleEnv (recognizeRequest sampleEnv (js ''audio/u123/rec.webm'') (js ''ta'')) =
     Inr \<lparr> results = Some sampleResults \<rparr> \<and>
   fst (transcribeAudio sampleEnv sampleContext ownAudioRequest emptyWorld) =
     Inr \<lparr> tr_transcript = js ''namaste kisan'', tr_confidence = 1, tr_message = None \<rparr> \<and>
   0 \<le> tr_confidence (transcriptionOf sampleEnv \<lparr> results = Some sampleResults \<rparr>) \<and>
   tr_confidence (transcriptionOf sampleEnv \<lparr> results = Some sampleResults \<rparr>) \<le> 1 \<and>
   fst (transcribeAudio (sampleEnv\<lparr>recognize := \<lambda>r. Inr \<lparr> results = None \<rparr>\<rparr>) sampleContext
          ownAudioRequest emptyWorld) =
     Inr \<lparr> tr_transcript = [], tr_confidence = 0,
           tr_message = Some (js ''No speech detected in audio'') \<rparr>"
proof -
  let ?p = "js ''audio/u123/rec.webm''"
  let ?quiet = "sampleEnv\<lparr>recognize := \<lambda>r. Inr \<lparr> results = None \<rparr>\<rparr>"
  have n: "numberToString ?quiet = numberToString sampleEnv"
    and f: "fileExists ?quiet = fileExists sampleEnv"
    and g: "getSignedUrl ?quiet = getSignedUrl sampleEnv"
    and dn: "dateNow ?quiet = dateNow sampleEnv"
    by simp_all
  note h = sample_audio_request
  have h8': "recognize ?quiet (recognizeRequest ?quiet ?p (js ''ta'')) = Inr \<lparr> results = None \<rparr>"
    by simp
  note t1 = transcribeAudio_confidence [OF h, of emptyWorld]
  note t2 = transcribeAudio_confidence
    [of sampleContext "js ''u123''" ?quiet ownAudioRequest ?p "js ''ta''" "js ''https://signed''"
        "\<lparr> results = None \<rparr>" emptyWorld,
     unfolded n f g dn, OF h(1-7) h8']
  from t1 have r1: "fst (transcribeAudio sampleEnv sampleContext ownAudioRequest emptyWorld) =
      Inr (transcriptionOf sampleEnv \<lparr> results = Some sampleResults \<rparr>)"
    by simp
  from t2 have r2: "fst (transcribeAudio ?quiet sampleContext ownAudioRequest emptyWorld) =
      Inr (transcriptionOf ?quiet \<lparr> results = None \<rparr>)"
    by simp
  have q: "transcriptionOf ?quiet \<lparr> results = None \<rparr> =
      \<lparr> tr_transcript = [], tr_confidence = 0,
        tr_message = Some (js ''No speech detected in audio'') \<rparr>"
    by (simp add: transcriptionOf_def)
  have rs: "results \<lparr> results = Some sampleResults \<rparr> = Some sampleResults \<and> sampleResults \<noteq> []"
    by (simp add: sampleResults_def)
  have rounding: "(\<forall>x y. x \<le> y \<longrightarrow> roundDouble sampleEnv x \<le> roundDouble sampleEnv y) \<and>
      (\<forall>n \<le> 2 ^ 53. roundDouble sampleEnv (of_nat n) = of_nat n) \<and>
      (\<forall>r \<in> set sampleResults. segmentScore r \<le> 1) \<and> length sampleResults \<le> 2 ^ 53"
    by (simp add: sampleEnv_def sampleResults_def segmentScore_def firstAlternative_def)
  from t1 [THEN conjunct2, THEN conjunct2, rule_format, OF rs] rounding
  have b: "0 \<le> tr_confidence (transcriptionOf sampleEnv \<lparr> results = Some sampleResults \<rparr>) \<and>
      tr_confidence (transcriptionOf sampleEnv \<lparr> results = Some sampleResults \<rparr>) \<le> 1"
    by blast
  from r1 have r1': "fst (transcribeAudio sampleEnv sampleContext ownAudioRequest emptyWorld) =
     Inr \<lparr> tr_transcript = js ''namaste kisan'', tr_confidence = 1, tr_message = None \<rparr>"
    by (simp only: sample_transcription)
  from r2 q have r2': "fst (transcribeAudio ?quiet sampleContext ownAudioRequest emptyWorld) =
     Inr \<lparr> tr_transcript = [], tr_confidence = 0,
           tr_message = Some (js ''No speech detected in audio'') \<rparr>"
    by (simp only:)
  from h(1) h(3) h(6) h(8) r1' b r2' show ?thesis
    by (intro conjI) (assumption | erule conjunct1 | erule conjunct2)+
qed

section \<open>The placeholders of the prompt\<close>

text \<open>
  Claim C9 at a farm profile whose \<open>area\<close> has a value and no unit: the prompt says
  \<open>Farm Area: 2 undefined\<close>; and for an \<open>area\<close> without components it says
  \<open>undefined undefined\<close>. Every other field that is missing prints as
  \<open>Not specified\<close>.
\<close>

theorem prompt_area_component_undefined:
  "buildAgriculturalPrompt ns (JObj [(js ''area'', JObj [(js ''value'', JNum 2)])]) (js ''en'') q =
     Inr (promptTemplate (js ''English'') notSpecified notSpecified notSpecified notSpecified
            notSpecified notSpecified (ns 2 @ js '' undefined'') notSpecified q) \<and>
   areaText ns (JObj [(js ''area'', JObj [])]) = js ''undefined undefined''"
  by (simp add: buildAgriculturalPrompt_def cropsText_def orNotSpecified_def optProp_def
      areaText_def languageNames_def js_append)

lemma empty_profile_prompt:
  "buildAgriculturalPrompt ns (JObj []) (js ''ta'') q =
     Inr (promptTemplate (js ''Tamil'') notSpecified notSpecified notSpecified notSpecified
            notSpecified notSpecified notSpecified notSpecified q)"
  by (simp add: buildAgriculturalPrompt_def cropsText_def orNotSpecified_def optProp_def
      areaText_def languageNames_def)

lemma missing_field_not_specified:
  "\<not> truthy (getProp farmProfile k) \<Longrightarrow> orNotSpecified ns (getProp farmProfile k) = notSpecified"
  "\<not> truthy (optProp (getProp farmProfile (js ''location'')) k) \<Longrightarrow>
     orNotSpecified ns (optProp (getProp farmProfile (js ''location'')) k) = notSpecified"
  "\<not> truthy (getProp farmProfile (js ''area'')) \<Longrightarrow> areaText ns farmProfile = notSpecified"
  "nullish (getProp farmProfile (js ''crops'')) \<Longrightarrow> cropsText ns farmProfile = Inr notSpecified"
  by (auto simp: orNotSpecified_def areaText_def cropsText_def split: jsval.splits)


section \<open>The language tables\<close>

lemma synthesize_request_sent:
  assumes "Synthesize r \<in> set (drop (length (calls w)) (calls (snd (synthesizeSpeech env ctx d w))))"
  shows "\<exists>l t. validateLanguage (numberToString env) (getProp d (js ''language'')) = Inr l \<and>
           r = ttsRequest t l"
  using assms
  by (auto simp: synthesizeSpeech_def synthesizeSpeech_try_def step_defs saveFile_def
      requireAudio_def split: sum.splits option.splits if_splits prod.splits)

lemma recognize_request_sent:
  assumes "Recognize r \<in> set (drop (length (calls w)) (calls (snd (transcribeAudio env ctx d w))))"
  shows "\<exists>l p. validateLanguage (numberToString env) (getProp d (js ''language'')) = Inr l \<and>
           r = recognizeRequest env p l"
  using assms
  by (auto simp: transcribeAudio_def transcribeAudio_try_def step_defs
      split: sum.splits option.splits if_splits prod.splits)

text \<open>
  Claim C10: a language that validateLanguage accepts is one of the four codes (and each
  of the four is accepted); both tables have an entry for it, the entry of that very
  language; and every request that synthesizeSpeech sends to the speech synthesis, and
  transcribeAudio to the recogniser, carries the voice, respectively the locale, that the
  table gives for the language of the payload.
\<close>

theorem validated_language_tables_total:
  assumes "validateLanguage (numberToString env) (getProp d (js ''language'')) = Inr l"
  shows "getProp d (js ''language'') = JStr l \<and>
         l \<in> {js ''en'', js ''hi'', js ''ta'', js ''te''} \<and>
         (\<forall>c \<in> {js ''en'', js ''hi'', js ''ta'', js ''te''}.
            validateLanguage (numberToString env) (JStr c) = Inr c) \<and>
         map_of voiceConfig l = Some (voiceFor l) \<and>
         voice_languageCode (voiceFor l) = l @ js ''-IN'' \<and>
         map_of languageCodeMap l = Some (l @ js ''-IN'') \<and>
         (\<forall>r. Synthesize r \<in> set (drop (length (calls w))
                                  (calls (snd (synthesizeSpeech env ctx d w)))) \<longrightarrow>
              map_of voiceConfig l = Some (tts_voice r)) \<and>
         (\<forall>q. Recognize q \<in> set (drop (length (calls w))
                                  (calls (snd (transcribeAudio env ctx d w)))) \<longrightarrow>
              map_of languageCodeMap l = Some (languageCode q))"
proof -
  from validateLanguage_Inr [OF assms]
  have v: "getProp d (js ''language'') = JStr l" and s: "l \<in> set supportedLanguages"
    by simp_all
  note t = tables_total [OF s]
  have a: "\<forall>c \<in> {js ''en'', js ''hi'', js ''ta'', js ''te''}.
            validateLanguage (numberToString env) (JStr c) = Inr c"
    by (simp add: validateLanguage_def supportedLanguages_def)
  have sy: "map_of voiceConfig l = Some (tts_voice r)"
    if "Synthesize r \<in> set (drop (length (calls w)) (calls (snd (synthesizeSpeech env ctx d w))))"
    for r
    using synthesize_request_sent [OF that] assms t by (auto simp: ttsRequest_def)
  have re: "map_of languageCodeMap l = Some (languageCode q)"
    if "Recognize q \<in> set (drop (length (calls w)) (calls (snd (transcribeAudio env ctx d w))))"
    for q
    using recognize_request_sent [OF that] assms t by (auto simp: recognizeRequest_def)
  from v s t a sy re show ?thesis
    by (simp add: supportedLanguages_def)
qed

lemma trim_namaste: "trim (js ''namaste'') = js ''namaste''"
  by (simp add: js_def trim_def isWhiteSpace_def)

lemma sample_synthesis_calls:
  "calls (snd (synthesizeSpeech sampleEnv sampleContext speechRequest emptyWorld)) =
     [Synthesize (ttsRequest (js ''namaste'') (js ''hi'')),
      FileSave (fileNameFor sampleEnv (js ''u123'')),
      GetSignedUrl (fileNameFor sampleEnv (js ''u123'')) (dateNow sampleEnv 1 + 7 * 24 * 60 * 60 * 1000)]"
  by (simp add: run_defs sample_defs trim_namaste)

lemma sample_recognition_calls:
  "calls (snd (transcribeAudio sampleEnv sampleContext ownAudioRequest emptyWorld)) =
     [FileExists (js ''audio/u123/rec.webm''),
      GetSignedUrl (js ''audio/u123/rec.webm'') (dateNow sampleEnv 0 + 5 * 60 * 1000),
      Recognize (recognizeRequest sampleEnv (js ''audio/u123/rec.webm'') (js ''ta''))]"
  by (simp add: run_defs sample_defs)

text \<open>A request for Hindi speech, and a request to transcribe Tamil audio.\<close>

theorem validated_language_tables_total_witness:
  "validateLanguage (numberToString sampleEnv) (getProp speechRequest (js ''language'')) =
     Inr (js ''hi'') \<and>
   Synthesize (ttsRequest (js ''namaste'') (js ''hi''))
     \<in> set (drop (length (calls emptyWorld))
              (calls (snd (synthesizeSpeech sampleEnv sampleContext speechRequest emptyWorld)))) \<and>
   map_of voiceConfig (js ''hi'') = Some (tts_voice (ttsRequest (js ''namaste'') (js ''hi''))) \<and>
   voice_languageCode (voiceFor (js ''hi'')) = js ''hi-IN'' \<and>
   validateLanguage (numberToString sampleEnv) (getProp ownAudioRequest (js ''language'')) =
     Inr (js ''ta'') \<and>
   Recognize (recognizeRequest sampleEnv (js ''audio/u123/rec.webm'') (js ''ta''))
     \<in> set (drop (length (calls emptyWorld))
              (calls (snd (transcribeAudio sampleEnv sampleContext ownAudioRequest emptyWorld)))) \<and>
   map_of languageCodeMap (js ''ta'') =
     Some (languageCode (recognizeRequest sampleEnv (js ''audio/u123/rec.webm'') (js ''ta'')))"
proof -
  have h1: "validateLanguage (numberToString sampleEnv) (getProp speechRequest (js ''language'')) =
     Inr (js ''hi'')"
    by (simp add: validateLanguage_def supportedLanguages_def speechRequest_def)
  have s1: "Synthesize (ttsRequest (js ''namaste'') (js ''hi''))
     \<in> set (drop (length (calls emptyWorld))
              (calls (snd (synthesizeSpeech sampleEnv sampleContext speechRequest emptyWorld))))"
    unfolding sample_synthesis_calls by (simp add: emptyWorld_def)
  have h2: "validateLanguage (numberToString sampleEnv) (getProp ownAudioRequest (js ''language'')) =
     Inr (js ''ta'')"
    by (simp add: validateLanguage_def supportedLanguages_def ownAudioRequest_def)
  have s2: "Recognize (recognizeRequest sampleEnv (js ''audio/u123/rec.webm'') (js ''ta''))
     \<in> set (drop (length (calls emptyWorld))
              (calls (snd (transcribeAudio sampleEnv sampleContext ownAudioRequest emptyWorld))))"
    unfolding sample_recognition_calls by (simp add: emptyWorld_def)
  note t1 = validated_language_tables_total [OF h1, of emptyWorld sampleContext]
  note t2 = validated_language_tables_total [OF h2, of emptyWorld sampleContext]
  from t1 s1 have v1: "map_of voiceConfig (js ''hi'') =
      Some (tts_voice (ttsRequest (js ''namaste'') (js ''hi'')))"
    by blast
  from t1 have c1: "voice_languageCode (voiceFor (js ''hi'')) = js ''hi-IN''"
    by (simp add: js_append)
  from t2 s2 have v2: "map_of languageCodeMap (js ''ta'') =
     Some (languageCode (recognizeRequest sampleEnv (js ''audio/u123/rec.webm'') (js ''ta'')))"
    by blast
  from h1 s1 v1 c1 h2 s2 v2 show ?thesis by blast
qed

end
